theory Spec2Isabelle
  imports Complex_Main "HOL-Library.List_Lexorder" "HOL-Library.Char_ord" "HOL-Library.AList"
begin

section \<open>Shared data: coordinates, geometry and the geometry library\<close>

text \<open>
  Coordinates are \<open>[lng, lat]\<close> pairs. JavaScript numbers are modelled as reals:
  rounding error, NaN and the infinities of IEEE doubles are outside the model (where the
  source uses \<open>Infinity\<close> as a sentinel, the model uses \<open>None\<close>).
  Identifiers (node ids, floor ids, geometry ids) are strings, compared as JavaScript
  compares strings: lexicographically.
\<close>

type_synonym coord = "real \<times> real"
type_synonym bbox = "real \<times> real \<times> real \<times> real"
type_synonym floor_id = string
type_synonym node_id = string
type_synonym geometry_id = string

datatype geometry =
    Point coord
  | LineString "coord list"
  | MultiLineString "coord list list"
  | Polygon "coord list list"
  | MultiPolygon "coord list list list"

text \<open>
  The functions of the external geometry library (\<open>@turf/turf\<close>) that the modelled code
  calls. They are parameters of the model. A call that can throw returns an option,
  \<open>None\<close> standing for the exception.
\<close>

record turf =
  turf_distance :: "coord \<Rightarrow> coord \<Rightarrow> real"
  turf_booleanPointInPolygon :: "coord \<Rightarrow> geometry \<Rightarrow> bool option"
  turf_lineIntersect :: "coord \<Rightarrow> coord \<Rightarrow> geometry \<Rightarrow> coord list option"
  turf_pointToLineDistance :: "coord \<Rightarrow> geometry \<Rightarrow> real option"

section \<open>CollisionDetector\<close>

record obstacle =
  ob_feature :: geometry
  ob_bbox :: "bbox option"

record collisionDetector =
  obstacles :: "floor_id \<rightharpoonup> obstacle list"
  doorSegments :: "floor_id \<rightharpoonup> geometry list"
  doorToleranceMeters :: real

text \<open>\<open>doorSegments.some(segment => pointToLineDistance(p, segment) <= tolerance)\<close>:
  stops at the first segment that is near enough; an exception propagates.\<close>

fun someDoorNear :: "turf \<Rightarrow> real \<Rightarrow> coord \<Rightarrow> geometry list \<Rightarrow> bool option" where
  "someDoorNear T tol p [] = Some False"
| "someDoorNear T tol p (seg # segs) =
     (case turf_pointToLineDistance T p seg of
        None \<Rightarrow> None
      | Some d \<Rightarrow> if d \<le> tol then Some True else someDoorNear T tol p segs)"

definition isIntersectionAtDoor :: "turf \<Rightarrow> collisionDetector \<Rightarrow> coord \<Rightarrow> floor_id \<Rightarrow> bool" where
  "isIntersectionAtDoor T cd p floorId =
     (case doorSegments cd floorId of
        None \<Rightarrow> False
      | Some segs \<Rightarrow>
          if segs = [] then False
          else (case someDoorNear T (doorToleranceMeters cd) p segs of
                  None \<Rightarrow> False
                | Some b \<Rightarrow> b))"

text \<open>\<open>turf.bbox\<close> of the two-point line \<open>[start, end]\<close>.\<close>

definition lineBbox :: "coord \<Rightarrow> coord \<Rightarrow> bbox" where
  "lineBbox a b = (min (fst a) (fst b), min (snd a) (snd b), max (fst a) (fst b), max (snd a) (snd b))"

text \<open>The loop over the obstacles of \<open>lineIntersectsObstacle\<close>; \<open>None\<close> is an exception
  thrown by the intersection test, which the caller catches.\<close>

fun obstacleLoop :: "turf \<Rightarrow> collisionDetector \<Rightarrow> coord \<Rightarrow> coord \<Rightarrow> floor_id \<Rightarrow> obstacle list \<Rightarrow> bool option" where
  "obstacleLoop T cd a b floorId [] = Some False"
| "obstacleLoop T cd a b floorId (ob # obs) =
     (if (case ob_bbox ob of
            None \<Rightarrow> False
          | Some (oMinX, oMinY, oMaxX, oMaxY) \<Rightarrow>
              (case lineBbox a b of (minX, minY, maxX, maxY) \<Rightarrow>
                 oMaxX < minX \<or> oMinX > maxX \<or> oMaxY < minY \<or> oMinY > maxY))
      then obstacleLoop T cd a b floorId obs
      else (case turf_lineIntersect T a b (ob_feature ob) of
              None \<Rightarrow> None
            | Some pts \<Rightarrow>
                if pts \<noteq> [] \<and> \<not> list_all (\<lambda>p. isIntersectionAtDoor T cd p floorId) pts
                then Some True
                else obstacleLoop T cd a b floorId obs))"

definition lineIntersectsObstacle :: "turf \<Rightarrow> collisionDetector \<Rightarrow> coord \<Rightarrow> coord \<Rightarrow> floor_id \<Rightarrow> bool" where
  "lineIntersectsObstacle T cd a b floorId =
     (case obstacles cd floorId of
        None \<Rightarrow> False
      | Some obs \<Rightarrow>
          if obs = [] then False
          else (case obstacleLoop T cd a b floorId obs of
                  None \<Rightarrow> False
                | Some r \<Rightarrow> r))"

fun pointLoop :: "turf \<Rightarrow> coord \<Rightarrow> obstacle list \<Rightarrow> bool option" where
  "pointLoop T p [] = Some False"
| "pointLoop T p (ob # obs) =
     (case turf_booleanPointInPolygon T p (ob_feature ob) of
        None \<Rightarrow> None
      | Some inside \<Rightarrow> if inside then Some True else pointLoop T p obs)"

definition pointInObstacle :: "turf \<Rightarrow> collisionDetector \<Rightarrow> coord \<Rightarrow> floor_id \<Rightarrow> bool" where
  "pointInObstacle T cd p floorId =
     (case obstacles cd floorId of
        None \<Rightarrow> False
      | Some obs \<Rightarrow>
          if isIntersectionAtDoor T cd p floorId then False
          else (case pointLoop T p obs of
                  None \<Rightarrow> False
                | Some r \<Rightarrow> r))"

definition isPathClear :: "turf \<Rightarrow> collisionDetector \<Rightarrow> coord \<Rightarrow> coord \<Rightarrow> floor_id \<Rightarrow> bool" where
  "isPathClear T cd startCoords endCoords floorId =
     (if pointInObstacle T cd startCoords floorId \<or> pointInObstacle T cd endCoords floorId
      then False
      else \<not> lineIntersectsObstacle T cd startCoords endCoords floorId)"

definition isPathClearRelaxed :: "turf \<Rightarrow> collisionDetector \<Rightarrow> coord \<Rightarrow> coord \<Rightarrow> floor_id \<Rightarrow> bool" where
  "isPathClearRelaxed T cd startCoords endCoords floorId =
     (let dx = fst endCoords - fst startCoords;
          dy = snd endCoords - snd startCoords;
          distDegrees = sqrt (dx * dx + dy * dy);
          distMeters = distDegrees * 111320
      in if distMeters < 2 then True
         else if distMeters < 10 then \<not> lineIntersectsObstacle T cd startCoords endCoords floorId
         else isPathClear T cd startCoords endCoords floorId)"

text \<open>
  The value of \<open>distMeters\<close> in \<open>isPathClearRelaxed\<close>: the planar distance between the
  coordinates in degrees, times 111320. The longitude difference is not scaled by the cosine
  of the latitude, so this is the length of the segment in meters on the equator only; away
  from it an east-west segment measures more than its length (twice its length at latitude
  60).
\<close>

definition segmentMeters :: "coord \<Rightarrow> coord \<Rightarrow> real" where
  "segmentMeters a b = sqrt ((fst b - fst a) * (fst b - fst a) + (snd b - snd a) * (snd b - snd a)) * 111320"

section \<open>Graph\<close>

record metadata =
  md_isDoor :: bool
  md_isLocked :: bool
  md_isPublic :: bool
  md_isStairs :: bool
  md_isElevator :: bool
  md_roomIds :: "geometry_id list option"
  md_roomId :: "geometry_id option"

record node =
  n_id :: node_id
  n_coords :: coord
  n_floorId :: floor_id
  n_type :: string
  n_metadata :: metadata

record edge =
  e_target :: node_id
  e_weight :: "real option"
  e_type :: string
  e_accessible :: bool

text \<open>
  The class \<open>Graph\<close> (\<open>core/Graph.js\<close>) is not among the sources. Its query methods, as the
  modelled code calls them, are parameters: a graph is the record of these methods, and of
  the list \<open>Array.from(graph.nodes.values())\<close> of its nodes.
\<close>

record graph =
  allNodes :: "node list"
  getNode :: "node_id \<Rightarrow> node option"
  getEdges :: "node_id \<Rightarrow> edge list"
  findNearestNode :: "coord \<Rightarrow> floor_id \<Rightarrow> node option"
  findNearestNodesInRadius :: "coord \<Rightarrow> floor_id \<Rightarrow> real \<Rightarrow> nat \<Rightarrow> node list"
  findNearestNodeExpanded :: "coord \<Rightarrow> floor_id \<Rightarrow> node option"

section \<open>Query options\<close>

text \<open>
  The \<open>options\<close> object of \<open>findRoute\<close>, which is also what \<open>AStar.findPath\<close> and
  \<open>PathCache.generateKey\<close> read. A property that may be absent is an option.
\<close>

record options =
  o_useCache :: "bool option"
  o_snapToDoors :: "bool option"
  o_allowLockedDoors :: "bool option"
  o_roomTraversalMode :: "string option"
  o_publicRoomDoorCount :: "real option"
  o_publicRoomArea :: "real option"
  o_allowedRoomIds :: "geometry_id list option"
  o_disallowOtherRooms :: bool
  o_nodeFilter :: "(node \<Rightarrow> bool) option"
  o_accessibleOnly :: bool
  o_avoidStairs :: bool
  o_heuristicWeight :: "real option"

section \<open>AStar\<close>

subsection \<open>MinHeap\<close>

record qitem =
  q_nodeId :: node_id
  q_priority :: real

definition swap :: "'a list \<Rightarrow> nat \<Rightarrow> nat \<Rightarrow> 'a list" where
  "swap h i j = h[i := h ! j, j := h ! i]"

text \<open>\<open>bubbleUp\<close> and \<open>bubbleDown\<close> are only called with an index inside the heap.\<close>

function bubbleUp :: "qitem list \<Rightarrow> nat \<Rightarrow> qitem list" where
  "bubbleUp h index =
     (if index > 0 then
        (if q_priority (h ! index) \<ge> q_priority (h ! ((index - 1) div 2)) then h
         else bubbleUp (swap h index ((index - 1) div 2)) ((index - 1) div 2))
      else h)"
  by pat_completeness auto
termination
  by (relation "measure (\<lambda>(h, index). index)") auto

declare bubbleUp.simps [simp del]

definition smallestOf :: "qitem list \<Rightarrow> nat \<Rightarrow> nat" where
  "smallestOf h index =
     (let leftChild = 2 * index + 1;
          rightChild = 2 * index + 2;
          smallest = index;
          smallest = (if leftChild < length h \<and> q_priority (h ! leftChild) < q_priority (h ! smallest)
                      then leftChild else smallest);
          smallest = (if rightChild < length h \<and> q_priority (h ! rightChild) < q_priority (h ! smallest)
                      then rightChild else smallest)
      in smallest)"

function bubbleDown :: "qitem list \<Rightarrow> nat \<Rightarrow> qitem list" where
  "bubbleDown h index =
     (if smallestOf h index = index then h
      else bubbleDown (swap h index (smallestOf h index)) (smallestOf h index))"
  by pat_completeness auto
termination
  by (relation "measure (\<lambda>(h, index). length h - index)")
     (auto simp: smallestOf_def swap_def Let_def split: if_splits)

declare bubbleDown.simps [simp del]

definition push :: "qitem list \<Rightarrow> qitem \<Rightarrow> qitem list" where
  "push h item = bubbleUp (h @ [item]) (length h)"

definition pop :: "qitem list \<Rightarrow> qitem option \<times> qitem list" where
  "pop h =
     (if length h = 0 then (None, h)
      else if length h = 1 then (Some (h ! 0), [])
      else (Some (h ! 0), bubbleDown ((butlast h)[0 := last h]) 0))"

subsection \<open>Node filters\<close>

text \<open>\<open>metadata.roomIds || (metadata.roomId ? [metadata.roomId] : [])\<close>: an array, even an
  empty one, is truthy; an empty string is not.\<close>

definition roomIdsOf :: "node \<Rightarrow> geometry_id list" where
  "roomIdsOf nd =
     (case md_roomIds (n_metadata nd) of
        Some ids \<Rightarrow> ids
      | None \<Rightarrow> (case md_roomId (n_metadata nd) of
                   Some r \<Rightarrow> if r \<noteq> [] then [r] else []
                 | None \<Rightarrow> []))"

text \<open>\<open>isRoomAllowed\<close> of \<open>findPath\<close>. The second argument is \<open>allowedRoomSet\<close>.\<close>

definition isRoomAllowed :: "bool \<Rightarrow> geometry_id list option \<Rightarrow> node \<Rightarrow> bool" where
  "isRoomAllowed disallowOtherRooms allowedRoomSet nd =
     (if \<not> disallowOtherRooms then True
      else if md_isElevator (n_metadata nd) \<or> md_isStairs (n_metadata nd) \<or> md_isDoor (n_metadata nd)
        then True
      else if roomIdsOf nd = [] then True
      else (case allowedRoomSet of
              None \<Rightarrow> True
            | Some allowed \<Rightarrow>
                if allowed = [] then True
                else list_ex (\<lambda>i. i \<in> set allowed) (roomIdsOf nd)))"

text \<open>\<open>isRoomAllowed\<close> of \<open>findPathBidirectional\<close>.\<close>

definition isRoomAllowedBidirectional :: "bool \<Rightarrow> geometry_id list option \<Rightarrow> node \<Rightarrow> bool" where
  "isRoomAllowedBidirectional disallowOtherRooms allowedRoomSet nd =
     (if \<not> disallowOtherRooms then True
      else if roomIdsOf nd = [] then True
      else (case allowedRoomSet of
              None \<Rightarrow> False
            | Some allowed \<Rightarrow>
                if allowed = [] then False
                else list_ex (\<lambda>i. i \<in> set allowed) (roomIdsOf nd)))"

definition isNodeAllowed :: "options \<Rightarrow> node \<Rightarrow> bool" where
  "isNodeAllowed opts nd =
     (if (case o_nodeFilter opts of None \<Rightarrow> False | Some flt \<Rightarrow> \<not> flt nd) then False
      else isRoomAllowed (o_disallowOtherRooms opts) (o_allowedRoomIds opts) nd)"

definition isNodeAllowedBidirectional :: "options \<Rightarrow> node \<Rightarrow> bool" where
  "isNodeAllowedBidirectional opts nd =
     (if (case o_nodeFilter opts of None \<Rightarrow> False | Some flt \<Rightarrow> \<not> flt nd) then False
      else isRoomAllowedBidirectional (o_disallowOtherRooms opts) (o_allowedRoomIds opts) nd)"

subsection \<open>findPath\<close>

definition heuristic :: "turf \<Rightarrow> node \<Rightarrow> node \<Rightarrow> real" where
  "heuristic T nodeA nodeB =
     turf_distance T (n_coords nodeA) (n_coords nodeB)
       + (if n_floorId nodeA \<noteq> n_floorId nodeB then 10 else 0)"

record segment =
  s_from :: node_id
  s_to :: node_id
  s_fromCoords :: coord
  s_toCoords :: coord
  s_distance :: real
  s_floorChange :: bool
  s_fromFloor :: floor_id
  s_toFloor :: floor_id

fun buildSegments :: "turf \<Rightarrow> node list \<Rightarrow> segment list" where
  "buildSegments T (a # b # rest) =
     \<lparr>s_from = n_id a, s_to = n_id b, s_fromCoords = n_coords a, s_toCoords = n_coords b,
      s_distance = turf_distance T (n_coords a) (n_coords b),
      s_floorChange = (n_floorId a \<noteq> n_floorId b),
      s_fromFloor = n_floorId a, s_toFloor = n_floorId b\<rparr> # buildSegments T (b # rest)"
| "buildSegments T _ = []"

text \<open>The result of a search. \<open>ap_distance\<close> is \<open>gScore.get(goal)\<close>, which is
  \<open>undefined\<close> when the map has no entry.\<close>

record astarPath =
  ap_nodeIds :: "node_id list"
  ap_nodes :: "node list"
  ap_coords :: "coord list"
  ap_floors :: "floor_id list"
  ap_distance :: "real option"
  ap_segments :: "segment list"

record astarState =
  openSet :: "qitem list"
  closedSet :: "node_id set"
  gScore :: "node_id \<rightharpoonup> real"
  fScore :: "node_id \<rightharpoonup> real"
  cameFrom :: "node_id \<rightharpoonup> node_id"

text \<open>
  In the searches below the result \<open>None\<close> means that the call does not return normally:
  the source loops forever (\<open>reconstructPath\<close> on a cyclic \<open>cameFrom\<close>) or raises a
  TypeError (reading a property of a node that the graph does not have).
\<close>

text \<open>The \<open>while (cameFrom.has(current))\<close> loop of \<open>reconstructPath\<close>.\<close>

partial_function (option) walkBack :: "(node_id \<rightharpoonup> node_id) \<Rightarrow> node_id \<Rightarrow> node_id list \<Rightarrow> node_id list option" where
  "walkBack cf current path =
     (case cf current of
        None \<Rightarrow> Some path
      | Some prev \<Rightarrow> walkBack cf prev (prev # path))"

declare walkBack.simps [code]

text \<open>\<open>path.map(id => graph.getNode(id))\<close>, followed by reads of \<open>node.coords\<close>.\<close>

fun nodesOf :: "graph \<Rightarrow> node_id list \<Rightarrow> node list option" where
  "nodesOf g [] = Some []"
| "nodesOf g (i # is) =
     (case getNode g i of
        None \<Rightarrow> None
      | Some nd \<Rightarrow> (case nodesOf g is of None \<Rightarrow> None | Some nds \<Rightarrow> Some (nd # nds)))"

definition reconstructPath :: "turf \<Rightarrow> graph \<Rightarrow> (node_id \<rightharpoonup> node_id) \<Rightarrow> node_id \<Rightarrow> (node_id \<rightharpoonup> real) \<Rightarrow> astarPath option" where
  "reconstructPath T g cf currentId gs =
     (case walkBack cf currentId [currentId] of
        None \<Rightarrow> None
      | Some path \<Rightarrow>
          (case nodesOf g path of
             None \<Rightarrow> None
           | Some nodes \<Rightarrow>
               Some \<lparr>ap_nodeIds = path, ap_nodes = nodes, ap_coords = map n_coords nodes,
                     ap_floors = map n_floorId nodes, ap_distance = gs currentId,
                     ap_segments = buildSegments T nodes\<rparr>))"

text \<open>
  The body of \<open>for (const edge of edges)\<close> for one edge. \<open>gScore.get(neighborId) || Infinity\<close>
  is \<open>Infinity\<close> also when the stored score is 0. When \<open>gScore\<close> has no entry for the current
  node, the tentative score is NaN and the comparison fails.
\<close>

definition relaxEdge :: "turf \<Rightarrow> graph \<Rightarrow> options \<Rightarrow> node \<Rightarrow> node_id \<Rightarrow> astarState \<Rightarrow> edge \<Rightarrow> astarState option" where
  "relaxEdge T g opts endNode currentId st e =
     (if o_accessibleOnly opts \<and> \<not> e_accessible e then Some st
      else if o_avoidStairs opts \<and> e_type e = ''stairs'' then Some st
      else if e_target e \<in> closedSet st then Some st
      else (case getNode g (e_target e) of
              None \<Rightarrow> Some st
            | Some neighborNode \<Rightarrow>
                if \<not> isNodeAllowed opts neighborNode then Some st
                else (case (case e_weight e of
                              Some w \<Rightarrow> Some w
                            | None \<Rightarrow> map_option (\<lambda>currentNode. turf_distance T (n_coords currentNode) (n_coords neighborNode))
                                        (getNode g currentId)) of
                        None \<Rightarrow> None
                      | Some distance \<Rightarrow>
                          (case gScore st currentId of
                             None \<Rightarrow> Some st
                           | Some gCurrent \<Rightarrow>
                               let tentativeG = gCurrent + distance in
                               if (case gScore st (e_target e) of
                                     None \<Rightarrow> True
                                   | Some gOld \<Rightarrow> if gOld = 0 then True else tentativeG < gOld)
                               then
                                 let h = heuristic T neighborNode endNode
                                           * (case o_heuristicWeight opts of None \<Rightarrow> 1 | Some w \<Rightarrow> w);
                                     f = tentativeG + h
                                 in Some (st\<lparr>cameFrom := (cameFrom st)(e_target e \<mapsto> currentId),
                                              gScore := (gScore st)(e_target e \<mapsto> tentativeG),
                                              fScore := (fScore st)(e_target e \<mapsto> f),
                                              openSet := push (openSet st) \<lparr>q_nodeId = e_target e, q_priority = f\<rparr>\<rparr>)
                               else Some st))))"

fun relaxEdges :: "turf \<Rightarrow> graph \<Rightarrow> options \<Rightarrow> node \<Rightarrow> node_id \<Rightarrow> astarState \<Rightarrow> edge list \<Rightarrow> astarState option" where
  "relaxEdges T g opts endNode currentId st [] = Some st"
| "relaxEdges T g opts endNode currentId st (e # es) =
     (case relaxEdge T g opts endNode currentId st e of
        None \<Rightarrow> None
      | Some st' \<Rightarrow> relaxEdges T g opts endNode currentId st' es)"

text \<open>The \<open>while (!openSet.isEmpty())\<close> loop. The inner \<open>Some None\<close> is the result
  \<open>null\<close> (no path).\<close>

partial_function (option) searchLoop :: "turf \<Rightarrow> graph \<Rightarrow> options \<Rightarrow> node \<Rightarrow> node_id \<Rightarrow> astarState \<Rightarrow> astarPath option option" where
  "searchLoop T g opts endNode endNodeId st =
     (case pop (openSet st) of
        (None, rest) \<Rightarrow> Some None
      | (Some current, rest) \<Rightarrow>
          if q_nodeId current = endNodeId
          then map_option Some (reconstructPath T g (cameFrom st) (q_nodeId current) (gScore st))
          else if q_nodeId current \<in> closedSet st
          then searchLoop T g opts endNode endNodeId (st\<lparr>openSet := rest\<rparr>)
          else (case relaxEdges T g opts endNode (q_nodeId current)
                       (st\<lparr>openSet := rest, closedSet := insert (q_nodeId current) (closedSet st)\<rparr>)
                       (getEdges g (q_nodeId current)) of
                  None \<Rightarrow> None
                | Some st' \<Rightarrow> searchLoop T g opts endNode endNodeId st'))"

declare searchLoop.simps [code]

definition findPath :: "turf \<Rightarrow> graph \<Rightarrow> node_id \<Rightarrow> node_id \<Rightarrow> options \<Rightarrow> astarPath option option" where
  "findPath T g startNodeId endNodeId opts =
     (case getNode g startNodeId of
        None \<Rightarrow> Some None
      | Some startNode \<Rightarrow>
          (case getNode g endNodeId of
             None \<Rightarrow> Some None
           | Some endNode \<Rightarrow>
               let h = heuristic T startNode endNode in
               searchLoop T g opts endNode endNodeId
                 \<lparr>openSet = push [] \<lparr>q_nodeId = startNodeId, q_priority = h\<rparr>,
                  closedSet = {},
                  gScore = [startNodeId \<mapsto> 0],
                  fScore = [startNodeId \<mapsto> h],
                  cameFrom = Map.empty\<rparr>))"

section \<open>EdgeBuilder\<close>

record builtEdge =
  be_from :: node_id
  be_to :: node_id
  be_weight :: real
  be_type :: string

text \<open>
  The spatial index of a floor (built by \<open>Graph.buildSpatialIndexes\<close>, not among the
  sources): \<open>quadTree.query(range)\<close> is a parameter. A range is
  \<open>(minX, minY, maxX, maxY)\<close>.
\<close>

record spatialIndex =
  quadTree :: "(bbox \<Rightarrow> node list) option"

text \<open>\<open>distSq > worstDistSq\<close>, where \<open>worstDistSq\<close> starts as \<open>-Infinity\<close> (\<open>None\<close>).\<close>

definition aboveWorst :: "real \<Rightarrow> real option \<Rightarrow> bool" where
  "aboveWorst d worst = (case worst of None \<Rightarrow> True | Some w \<Rightarrow> d > w)"

text \<open>\<open>distSq >= worstDistSq\<close>.\<close>

definition atLeastWorst :: "real \<Rightarrow> real option \<Rightarrow> bool" where
  "atLeastWorst d worst = (case worst of None \<Rightarrow> True | Some w \<Rightarrow> d \<ge> w)"

text \<open>The rescan \<open>for (let i = 0; i < best.length; i++)\<close> for the worst entry.\<close>

fun worstScan :: "(node \<times> real) list \<Rightarrow> nat \<Rightarrow> int \<times> real option \<Rightarrow> int \<times> real option" where
  "worstScan [] i acc = acc"
| "worstScan (b # bs) i (worstIndex, worstDistSq) =
     worstScan bs (i + 1)
       (if aboveWorst (snd b) worstDistSq then (int i, Some (snd b)) else (worstIndex, worstDistSq))"

text \<open>The loop \<open>for (const candidate of candidates)\<close> of \<open>selectNearestCandidates\<close>. The
  assignment \<open>best[worstIndex] = ...\<close> is only reached when \<open>best\<close> is not empty, with
  \<open>worstIndex\<close> an index of \<open>best\<close>.\<close>

fun selectLoop :: "node \<Rightarrow> real \<Rightarrow> (node \<times> real) list \<Rightarrow> int \<Rightarrow> real option \<Rightarrow> node list \<Rightarrow> (node \<times> real) list" where
  "selectLoop nodeA maxNeighbors best worstIndex worstDistSq [] = best"
| "selectLoop nodeA maxNeighbors best worstIndex worstDistSq (candidate # rest) =
     (if n_id candidate = n_id nodeA
      then selectLoop nodeA maxNeighbors best worstIndex worstDistSq rest
      else
        let dx = fst (n_coords candidate) - fst (n_coords nodeA);
            dy = snd (n_coords candidate) - snd (n_coords nodeA);
            distSq = dx * dx + dy * dy
        in if real (length best) < maxNeighbors
           then (if aboveWorst distSq worstDistSq
                 then selectLoop nodeA maxNeighbors (best @ [(candidate, distSq)]) (int (length best)) (Some distSq) rest
                 else selectLoop nodeA maxNeighbors (best @ [(candidate, distSq)]) worstIndex worstDistSq rest)
           else if atLeastWorst distSq worstDistSq
           then selectLoop nodeA maxNeighbors best worstIndex worstDistSq rest
           else
             (case worstScan (best[nat worstIndex := (candidate, distSq)]) 0 (-1, None) of
                (wi, wd) \<Rightarrow> selectLoop nodeA maxNeighbors (best[nat worstIndex := (candidate, distSq)]) wi wd rest))"

definition selectNearestCandidates :: "node \<Rightarrow> node list \<Rightarrow> real \<Rightarrow> node list" where
  "selectNearestCandidates nodeA candidates maxNeighbors =
     map fst (sort_key snd (selectLoop nodeA maxNeighbors [] (-1) None candidates))"

text \<open>The loop \<open>for (const nodeB of candidates)\<close> for one node A. The first argument is
  \<open>hasLineOfSight\<close>; \<open>addedForNode\<close> counts the accepted neighbours.\<close>

fun neighbourLoop :: "(coord \<Rightarrow> coord \<Rightarrow> floor_id \<Rightarrow> bool) \<Rightarrow> floor_id \<Rightarrow> real \<Rightarrow> real option \<Rightarrow> node \<Rightarrow> nat \<Rightarrow> node list \<Rightarrow> builtEdge list" where
  "neighbourLoop los floorId maxDistance neighborLimit nodeA addedForNode [] = []"
| "neighbourLoop los floorId maxDistance neighborLimit nodeA addedForNode (nodeB # rest) =
     (if n_id nodeB \<le> n_id nodeA
      then neighbourLoop los floorId maxDistance neighborLimit nodeA addedForNode rest
      else
        let metersPerDegreeLat = 111320;
            metersPerDegreeLng = cos (snd (n_coords nodeA) * (pi / 180)) * metersPerDegreeLat;
            dxMeters = (fst (n_coords nodeB) - fst (n_coords nodeA)) * metersPerDegreeLng;
            dyMeters = (snd (n_coords nodeB) - snd (n_coords nodeA)) * metersPerDegreeLat;
            distanceSqMeters = dxMeters * dxMeters + dyMeters * dyMeters
        in if distanceSqMeters > maxDistance * maxDistance
           then neighbourLoop los floorId maxDistance neighborLimit nodeA addedForNode rest
           else if los (n_coords nodeA) (n_coords nodeB) floorId
           then
             \<lparr>be_from = n_id nodeA, be_to = n_id nodeB, be_weight = sqrt distanceSqMeters, be_type = ''walkable''\<rparr>
             # \<lparr>be_from = n_id nodeB, be_to = n_id nodeA, be_weight = sqrt distanceSqMeters, be_type = ''walkable''\<rparr>
             # (if (case neighborLimit of None \<Rightarrow> False | Some k \<Rightarrow> k \<noteq> 0 \<and> real (addedForNode + 1) \<ge> k)
                then []
                else neighbourLoop los floorId maxDistance neighborLimit nodeA (addedForNode + 1) rest)
           else neighbourLoop los floorId maxDistance neighborLimit nodeA addedForNode rest)"

text \<open>The candidates of node A: the spatial query or the bounding-box filter, cut down to
  the candidate pool when there are more.\<close>

definition candidatesOf :: "node list \<Rightarrow> real \<Rightarrow> spatialIndex option \<Rightarrow> real option \<Rightarrow> node \<Rightarrow> node list" where
  "candidatesOf nodes maxDistance spatial neighborLimit nodeA =
     (let maxDistDegrees = maxDistance / 111320;
          lng = fst (n_coords nodeA);
          lat = snd (n_coords nodeA);
          candidatePoolLimit =
            (case neighborLimit of
               None \<Rightarrow> None
             | Some k \<Rightarrow> if k \<noteq> 0 then Some (max k (k * 6)) else None);
          candidates =
            (case (case spatial of None \<Rightarrow> None | Some si \<Rightarrow> quadTree si) of
               Some query \<Rightarrow>
                 query (lng - maxDistDegrees, lat - maxDistDegrees, lng + maxDistDegrees, lat + maxDistDegrees)
             | None \<Rightarrow>
                 filter (\<lambda>n. \<bar>fst (n_coords n) - lng\<bar> \<le> maxDistDegrees
                           \<and> \<bar>snd (n_coords n) - lat\<bar> \<le> maxDistDegrees) nodes)
      in if (case candidatePoolLimit of
               None \<Rightarrow> False
             | Some l \<Rightarrow> l \<noteq> 0 \<and> real (length candidates) > l)
         then selectNearestCandidates nodeA candidates (the candidatePoolLimit)
         else candidates)"

text \<open>The loop \<open>for (let index = 0; index < nodes.length; index++)\<close> over the nodes that
  remain. The cooperative yields do not change the result and are left out.\<close>

fun nodeLoop :: "(coord \<Rightarrow> coord \<Rightarrow> floor_id \<Rightarrow> bool) \<Rightarrow> node list \<Rightarrow> floor_id \<Rightarrow> real \<Rightarrow> spatialIndex option \<Rightarrow> real option \<Rightarrow> node list \<Rightarrow> builtEdge list" where
  "nodeLoop los nodes floorId maxDistance spatial neighborLimit [] = []"
| "nodeLoop los nodes floorId maxDistance spatial neighborLimit (nodeA # rest) =
     neighbourLoop los floorId maxDistance neighborLimit nodeA 0
         (candidatesOf nodes maxDistance spatial neighborLimit nodeA)
       @ nodeLoop los nodes floorId maxDistance spatial neighborLimit rest"

text \<open>\<open>maxNeighbors\<close> is \<open>Some k\<close> for a finite number and \<open>None\<close> otherwise
  (\<open>Number.isFinite\<close>).\<close>

definition buildEdgesForFloor :: "(coord \<Rightarrow> coord \<Rightarrow> floor_id \<Rightarrow> bool) \<Rightarrow> node list \<Rightarrow> floor_id \<Rightarrow> real \<Rightarrow> spatialIndex option \<Rightarrow> real option \<Rightarrow> builtEdge list" where
  "buildEdgesForFloor los nodes floorId maxDistance spatial maxNeighbors =
     nodeLoop los nodes floorId maxDistance spatial maxNeighbors nodes"

definition hasLineOfSight :: "turf \<Rightarrow> collisionDetector \<Rightarrow> coord \<Rightarrow> coord \<Rightarrow> floor_id \<Rightarrow> bool" where
  "hasLineOfSight T cd coordsA coordsB floorId = isPathClear T cd coordsA coordsB floorId"

text \<open>The distance in meters that the edge builder assigns to the pair (A, B): planar, with
  the longitude scaled at the latitude of A.\<close>

definition edgeMeters :: "node \<Rightarrow> node \<Rightarrow> real" where
  "edgeMeters nodeA nodeB =
     sqrt (((fst (n_coords nodeB) - fst (n_coords nodeA)) * (cos (snd (n_coords nodeA) * (pi / 180)) * 111320))
             * ((fst (n_coords nodeB) - fst (n_coords nodeA)) * (cos (snd (n_coords nodeA) * (pi / 180)) * 111320))
           + ((snd (n_coords nodeB) - snd (n_coords nodeA)) * 111320)
             * ((snd (n_coords nodeB) - snd (n_coords nodeA)) * 111320))"

text \<open>\<open>calculateDistance(coordsA, coordsB)\<close>: the length of a segment in meters, planar,
  with the longitude scaled at the mean latitude of the two points.\<close>

definition calculateDistance :: "coord \<Rightarrow> coord \<Rightarrow> real" where
  "calculateDistance coordsA coordsB =
     (let metersPerDegreeLat = 111320;
          radiansPerDegree = pi / 180;
          metersPerDegreeLng = cos (((snd coordsA + snd coordsB) / 2) * radiansPerDegree) * metersPerDegreeLat;
          dxMeters = (fst coordsB - fst coordsA) * metersPerDegreeLng;
          dyMeters = (snd coordsB - snd coordsA) * metersPerDegreeLat
      in sqrt (dxMeters * dxMeters + dyMeters * dyMeters))"

text \<open>The two directed edges that the builder emits for an accepted pair (A, B).\<close>

definition forwardEdge :: "node \<Rightarrow> node \<Rightarrow> builtEdge" where
  "forwardEdge nodeA nodeB =
     \<lparr>be_from = n_id nodeA, be_to = n_id nodeB, be_weight = edgeMeters nodeA nodeB, be_type = ''walkable''\<rparr>"

definition backwardEdge :: "node \<Rightarrow> node \<Rightarrow> builtEdge" where
  "backwardEdge nodeA nodeB =
     \<lparr>be_from = n_id nodeB, be_to = n_id nodeA, be_weight = edgeMeters nodeA nodeB, be_type = ''walkable''\<rparr>"

section \<open>Routes and the path cache\<close>

record routeMeta =
  m_startCoords :: coord
  m_endCoords :: coord
  m_startFloorId :: floor_id
  m_endFloorId :: floor_id
  m_startRoomId :: "geometry_id option"
  m_endRoomId :: "geometry_id option"
  m_startDoorId :: "node_id option"
  m_endDoorId :: "node_id option"
  m_sameRoom :: bool
  m_roomTraversalMode :: "string option"

record route =
  r_path :: "coord list"
  r_nodeIds :: "node_id list"
  r_distance :: real
  r_floors :: "floor_id list"
  r_segments :: "segment list"
  r_startNode :: "node option"
  r_endNode :: "node option"
  r_meta :: routeMeta

text \<open>\<open>Math.round(c * 10000) / 10000\<close>; \<open>Math.round\<close> rounds halves up.\<close>

definition roundCoord :: "real \<Rightarrow> real" where
  "roundCoord c = of_int \<lfloor>c * 10000 + 1 / 2\<rfloor> / 10000"

text \<open>
  The cache key. The source renders it as the string
  \<open>lng,lat,floor|lng,lat,floor|base:mode:doorCount:area\<close>; the model keeps the components
  that the string is made of. \<open>k_roomDoorCount\<close> and \<open>k_roomArea\<close> are \<open>None\<close> where
  the string has the empty text.
\<close>

record cacheKey =
  k_start :: "real \<times> real \<times> floor_id"
  k_end :: "real \<times> real \<times> floor_id"
  k_baseKey :: string
  k_roomMode :: string
  k_roomDoorCount :: "real option"
  k_roomArea :: "real option"

definition generateKey :: "coord \<Rightarrow> coord \<Rightarrow> floor_id \<Rightarrow> floor_id \<Rightarrow> options \<Rightarrow> cacheKey" where
  "generateKey startCoords endCoords startFloorId endFloorId opts =
     \<lparr>k_start = (roundCoord (fst startCoords), roundCoord (snd startCoords), startFloorId),
      k_end = (roundCoord (fst endCoords), roundCoord (snd endCoords), endFloorId),
      k_baseKey = (if o_accessibleOnly opts then ''acc'' else ''std''),
      k_roomMode =
        (case o_roomTraversalMode opts of
           Some m \<Rightarrow> if m \<noteq> [] then m else (if o_disallowOtherRooms opts then ''strict'' else ''all'')
         | None \<Rightarrow> (if o_disallowOtherRooms opts then ''strict'' else ''all'')),
      k_roomDoorCount = o_publicRoomDoorCount opts,
      k_roomArea = o_publicRoomArea opts\<rparr>"

text \<open>\<open>PathCache\<close>: a JavaScript \<open>Map\<close> in insertion order, as an association list.\<close>

record pathCache =
  pc_cache :: "(cacheKey \<times> route) list"
  pc_maxSize :: nat

definition cacheGet :: "pathCache \<Rightarrow> coord \<Rightarrow> coord \<Rightarrow> floor_id \<Rightarrow> floor_id \<Rightarrow> options \<Rightarrow> route option \<times> pathCache" where
  "cacheGet pc startCoords endCoords startFloorId endFloorId opts =
     (let key = generateKey startCoords endCoords startFloorId endFloorId opts
      in case map_of (pc_cache pc) key of
           Some v \<Rightarrow> (Some v, pc\<lparr>pc_cache := AList.update key v (AList.delete key (pc_cache pc))\<rparr>)
         | None \<Rightarrow> (None, pc))"

definition cacheSet :: "pathCache \<Rightarrow> coord \<Rightarrow> coord \<Rightarrow> floor_id \<Rightarrow> floor_id \<Rightarrow> options \<Rightarrow> route \<Rightarrow> pathCache" where
  "cacheSet pc startCoords endCoords startFloorId endFloorId opts rt =
     (let key = generateKey startCoords endCoords startFloorId endFloorId opts;
          evicted =
            (if length (pc_cache pc) \<ge> pc_maxSize pc
             then (case pc_cache pc of [] \<Rightarrow> [] | (firstKey, v) # rest \<Rightarrow> AList.delete firstKey (pc_cache pc))
             else pc_cache pc)
      in pc\<lparr>pc_cache := AList.update key rt evicted\<rparr>)"

section \<open>PathfindingEngine\<close>

record room =
  rm_geometryId :: geometry_id
  rm_floorId :: floor_id
  rm_feature :: geometry
  rm_buffer :: "geometry option"
  rm_bbox :: bbox

record roomMetaEntry =
  rme_area :: real
  rme_doorCount :: nat
  rme_publicDoorCount :: nat

record routeError =
  re_code :: string
  re_message :: string

record engine =
  initialized :: bool
  eg_graph :: graph
  eg_collisionDetector :: collisionDetector
  roomIndex :: "floor_id \<rightharpoonup> room list"
  roomDoorIndex :: "geometry_id \<rightharpoonup> node list"
  roomMeta :: "(geometry_id \<times> roomMetaEntry) list"
  walkableNodesByFloor :: "floor_id \<rightharpoonup> node list"
  lastRouteError :: "routeError option"
  pathCache :: pathCache

definition getLastRouteError :: "engine \<Rightarrow> routeError option" where
  "getLastRouteError eng = lastRouteError eng"

definition setRouteError :: "engine \<Rightarrow> string \<Rightarrow> string \<Rightarrow> engine" where
  "setRouteError eng code message = eng\<lparr>lastRouteError := Some \<lparr>re_code = code, re_message = message\<rparr>\<rparr>"

definition isPointInRoom :: "turf \<Rightarrow> coord \<Rightarrow> room \<Rightarrow> bool" where
  "isPointInRoom T p rm =
     (case turf_booleanPointInPolygon T p (case rm_buffer rm of Some b \<Rightarrow> b | None \<Rightarrow> rm_feature rm) of
        None \<Rightarrow> False
      | Some inside \<Rightarrow> inside)"

fun roomLoop :: "turf \<Rightarrow> coord \<Rightarrow> room list \<Rightarrow> room option" where
  "roomLoop T p [] = None"
| "roomLoop T p (rm # rms) =
     (case rm_bbox rm of (minX, minY, maxX, maxY) \<Rightarrow>
        if fst p < minX \<or> fst p > maxX \<or> snd p < minY \<or> snd p > maxY then roomLoop T p rms
        else if isPointInRoom T p rm then Some rm
        else roomLoop T p rms)"

definition findRoomAtPoint :: "turf \<Rightarrow> engine \<Rightarrow> coord \<Rightarrow> floor_id \<Rightarrow> room option" where
  "findRoomAtPoint T eng coords floorId =
     (case roomIndex eng floorId of
        None \<Rightarrow> None
      | Some rooms \<Rightarrow> roomLoop T coords rooms)"

record doorCandidates =
  dc_available :: "node list"
  dc_locked :: "node list"
  dc_total :: nat

definition getRoomDoorCandidates :: "engine \<Rightarrow> room \<Rightarrow> bool \<Rightarrow> doorCandidates" where
  "getRoomDoorCandidates eng rm allowLockedDoors =
     (let doors = (case roomDoorIndex eng (rm_geometryId rm) of Some ds \<Rightarrow> ds | None \<Rightarrow> [])
      in \<lparr>dc_available = filter (\<lambda>door. allowLockedDoors \<or> \<not> md_isLocked (n_metadata door)) doors,
          dc_locked = filter (\<lambda>door. md_isLocked (n_metadata door)) doors,
          dc_total = length doors\<rparr>)"

definition isConnectorClear :: "turf \<Rightarrow> engine \<Rightarrow> coord \<Rightarrow> coord \<Rightarrow> floor_id \<Rightarrow> bool" where
  "isConnectorClear T eng startCoords endCoords floorId =
     isPathClear T (eg_collisionDetector eng) startCoords endCoords floorId"

text \<open>The \<open>forEach\<close> of \<open>findNearestWalkableNode\<close>; \<open>minDistSq\<close> starts as \<open>Infinity\<close>
  (\<open>None\<close>).\<close>

fun nearestLoop :: "coord \<Rightarrow> node option \<Rightarrow> real option \<Rightarrow> node list \<Rightarrow> node option" where
  "nearestLoop c nearest minDistSq [] = nearest"
| "nearestLoop c nearest minDistSq (nd # nds) =
     (let dx = fst (n_coords nd) - fst c;
          dy = snd (n_coords nd) - snd c;
          distSq = dx * dx + dy * dy
      in if (case minDistSq of None \<Rightarrow> True | Some m \<Rightarrow> distSq < m)
         then nearestLoop c (Some nd) (Some distSq) nds
         else nearestLoop c nearest minDistSq nds)"

definition findNearestWalkableNode :: "engine \<Rightarrow> coord \<Rightarrow> floor_id \<Rightarrow> node option" where
  "findNearestWalkableNode eng coords floorId =
     (case walkableNodesByFloor eng floorId of
        None \<Rightarrow> None
      | Some nodes \<Rightarrow> nearestLoop coords None None nodes)"

subsection \<open>The local functions of findRoute\<close>

definition isPublicRoom :: "real \<Rightarrow> real \<Rightarrow> roomMetaEntry option \<Rightarrow> bool" where
  "isPublicRoom publicRoomDoorCount publicRoomArea meta =
     (case meta of
        None \<Rightarrow> False
      | Some m \<Rightarrow>
          if real (rme_publicDoorCount m) \<ge> publicRoomDoorCount then True
          else if real (rme_doorCount m) \<ge> max 2 publicRoomDoorCount then True
          else rme_area m \<ge> publicRoomArea)"

text \<open>\<open>Set.add\<close>, the set kept in insertion order.\<close>

definition setAdd :: "'a list \<Rightarrow> 'a \<Rightarrow> 'a list" where
  "setAdd xs x = (if x \<in> set xs then xs else xs @ [x])"

definition buildAllowedRoomIds :: "engine \<Rightarrow> options \<Rightarrow> real \<Rightarrow> real \<Rightarrow> room option \<Rightarrow> room option \<Rightarrow> string \<Rightarrow> geometry_id list" where
  "buildAllowedRoomIds eng opts publicRoomDoorCount publicRoomArea startRoom endRoom mode =
     (let a0 = (case startRoom of Some r \<Rightarrow> setAdd [] (rm_geometryId r) | None \<Rightarrow> []);
          a1 = (case endRoom of Some r \<Rightarrow> setAdd a0 (rm_geometryId r) | None \<Rightarrow> a0);
          a2 = (if mode = ''public''
                then foldl (\<lambda>acc (roomId, meta).
                              if isPublicRoom publicRoomDoorCount publicRoomArea (Some meta)
                              then setAdd acc roomId else acc) a1 (roomMeta eng)
                else a1)
      in case o_allowedRoomIds opts of
           Some explicitAllowed \<Rightarrow> foldl setAdd a2 explicitAllowed
         | None \<Rightarrow> a2)"

text \<open>The \<open>nodeFilter\<close> of \<open>routeOptions\<close>.\<close>

definition routeNodeFilter :: "options \<Rightarrow> bool \<Rightarrow> node \<Rightarrow> bool" where
  "routeNodeFilter opts allowLockedDoors nd =
     (if (case o_nodeFilter opts of None \<Rightarrow> False | Some userFilter \<Rightarrow> \<not> userFilter nd) then False
      else if \<not> allowLockedDoors \<and> md_isDoor (n_metadata nd) \<and> md_isLocked (n_metadata nd) then False
      else True)"

text \<open>\<open>pushUnique(list, nodes)\<close>.\<close>

definition pushUnique :: "node list \<Rightarrow> node list \<Rightarrow> node list" where
  "pushUnique lst nodes =
     foldl (\<lambda>acc nd. if list_ex (\<lambda>existing. n_id existing = n_id nd) acc then acc else acc @ [nd]) lst nodes"

text \<open>
  Steps 3 to 5 of \<open>findRoute\<close> for one endpoint: the strict filter, the relaxed filter
  (fallback 1), all candidates when the endpoint is in a room (fallback 1b), the nearby
  nodes (fallback 2) and the expanded search (fallback 3). The source interleaves the
  start and the end; the two do not depend on each other.
\<close>

definition connectable :: "turf \<Rightarrow> engine \<Rightarrow> coord \<Rightarrow> floor_id \<Rightarrow> room option \<Rightarrow> node list \<Rightarrow> node list" where
  "connectable T eng coords floorId rm candidates =
     (let c1 = filter (\<lambda>candidate. isConnectorClear T eng coords (n_coords candidate) floorId) candidates;
          c2 = (if c1 = [] \<and> candidates \<noteq> []
                then filter (\<lambda>candidate. isPathClearRelaxed T (eg_collisionDetector eng) coords (n_coords candidate) floorId) candidates
                else c1);
          c3 = (if c2 = [] \<and> rm \<noteq> None \<and> candidates \<noteq> [] then candidates else c2)
      in if c3 = [] \<and> rm = None
         then
           (let nearbyNodes = findNearestNodesInRadius (eg_graph eng) coords floorId 0.002 10;
                c4 = filter (\<lambda>nd. isPathClearRelaxed T (eg_collisionDetector eng) coords (n_coords nd) floorId) nearbyNodes
            in if c4 = []
               then (case findNearestNodeExpanded (eg_graph eng) coords floorId of
                       Some expandedNode \<Rightarrow> [expandedNode]
                     | None \<Rightarrow> [])
               else c4)
         else c3)"

text \<open>The running best of \<open>findBestPath\<close>: \<open>best\<close>, \<open>bestStart\<close>, \<open>bestEnd\<close>,
  \<open>bestDistance\<close>; \<open>None\<close> is the initial \<open>null\<close> with distance \<open>Infinity\<close>.\<close>

type_synonym attempt = "astarPath \<times> node \<times> node \<times> real"

fun endLoop :: "turf \<Rightarrow> graph \<Rightarrow> options \<Rightarrow> coord \<Rightarrow> coord \<Rightarrow> node \<Rightarrow> attempt option \<Rightarrow> node list \<Rightarrow> attempt option option" where
  "endLoop T g optionsForPath startCoords endCoords startCandidate best [] = Some best"
| "endLoop T g optionsForPath startCoords endCoords startCandidate best (endCandidate # rest) =
     (case findPath T g (n_id startCandidate) (n_id endCandidate) optionsForPath of
        None \<Rightarrow> None
      | Some None \<Rightarrow> endLoop T g optionsForPath startCoords endCoords startCandidate best rest
      | Some (Some path) \<Rightarrow>
          (case ap_distance path of
             None \<Rightarrow> endLoop T g optionsForPath startCoords endCoords startCandidate best rest
           | Some pathDistance \<Rightarrow>
               let startConnectorDistance = turf_distance T startCoords (n_coords startCandidate);
                   endConnectorDistance = turf_distance T endCoords (n_coords endCandidate);
                   totalDistance = pathDistance + startConnectorDistance + endConnectorDistance
               in if (case best of None \<Rightarrow> True | Some (b, bs, be, bestDistance) \<Rightarrow> totalDistance < bestDistance)
                  then endLoop T g optionsForPath startCoords endCoords startCandidate
                         (Some (path, startCandidate, endCandidate, totalDistance)) rest
                  else endLoop T g optionsForPath startCoords endCoords startCandidate best rest))"

fun startLoop :: "turf \<Rightarrow> graph \<Rightarrow> options \<Rightarrow> coord \<Rightarrow> coord \<Rightarrow> node list \<Rightarrow> attempt option \<Rightarrow> node list \<Rightarrow> attempt option option" where
  "startLoop T g optionsForPath startCoords endCoords endConnectable best [] = Some best"
| "startLoop T g optionsForPath startCoords endCoords endConnectable best (startCandidate # rest) =
     (case endLoop T g optionsForPath startCoords endCoords startCandidate best endConnectable of
        None \<Rightarrow> None
      | Some best' \<Rightarrow> startLoop T g optionsForPath startCoords endCoords endConnectable best' rest)"

definition findBestPath :: "turf \<Rightarrow> graph \<Rightarrow> coord \<Rightarrow> coord \<Rightarrow> node list \<Rightarrow> node list \<Rightarrow> options \<Rightarrow> attempt option option" where
  "findBestPath T g startCoords endCoords startConnectable endConnectable optionsForPath =
     startLoop T g optionsForPath startCoords endCoords endConnectable None startConnectable"

subsection \<open>findRoute\<close>

text \<open>
  A call of \<open>findRoute\<close> returns \<open>Some (Inl message)\<close> when it throws the error
  \<open>message\<close>, and \<open>Some (Inr (engine', result))\<close> when it returns \<open>result\<close>
  (\<open>None\<close> for \<open>null\<close>) and leaves the engine as \<open>engine'\<close>. It is \<open>None\<close> when a graph
  search that it starts does not return.
\<close>

type_synonym findRouteResult = "(string + engine \<times> route option) option"

text \<open>The option values that \<open>findRoute\<close> derives first.\<close>

definition optSnapToDoors :: "options \<Rightarrow> bool" where
  "optSnapToDoors opts = (o_snapToDoors opts \<noteq> Some False)"

definition optAllowLockedDoors :: "options \<Rightarrow> bool" where
  "optAllowLockedDoors opts = (o_allowLockedDoors opts = Some True)"

definition optRoomTraversalMode :: "options \<Rightarrow> string" where
  "optRoomTraversalMode opts =
     (case o_roomTraversalMode opts of Some m \<Rightarrow> if m \<noteq> [] then m else ''public'' | None \<Rightarrow> ''public'')"

definition optPublicRoomDoorCount :: "options \<Rightarrow> real" where
  "optPublicRoomDoorCount opts = (case o_publicRoomDoorCount opts of Some n \<Rightarrow> n | None \<Rightarrow> 2)"

definition optPublicRoomArea :: "options \<Rightarrow> real" where
  "optPublicRoomArea opts = (case o_publicRoomArea opts of Some a \<Rightarrow> a | None \<Rightarrow> 80)"

text \<open>\<open>startRoom ? isPublicRoom(this.roomMeta.get(startRoom.geometryId)) : false\<close>.\<close>

definition roomIsPublic :: "engine \<Rightarrow> options \<Rightarrow> room option \<Rightarrow> bool" where
  "roomIsPublic eng opts rm =
     (case rm of
        None \<Rightarrow> False
      | Some r \<Rightarrow> isPublicRoom (optPublicRoomDoorCount opts) (optPublicRoomArea opts)
                   (map_of (roomMeta eng) (rm_geometryId r)))"

text \<open>\<open>useDoorsForStart ? this.getRoomDoorCandidates(startRoom, allowLockedDoors) : null\<close>.\<close>

definition doorResult :: "engine \<Rightarrow> options \<Rightarrow> room option \<Rightarrow> doorCandidates option" where
  "doorResult eng opts rm =
     (case rm of
        None \<Rightarrow> None
      | Some r \<Rightarrow> if \<not> roomIsPublic eng opts rm
                  then Some (getRoomDoorCandidates eng r (optAllowLockedDoors opts))
                  else None)"

definition routeOptions :: "engine \<Rightarrow> options \<Rightarrow> room option \<Rightarrow> room option \<Rightarrow> options" where
  "routeOptions eng opts startRoom endRoom =
     (let roomTraversalMode = optRoomTraversalMode opts;
          useRoomConstraints = (roomTraversalMode \<noteq> ''all'');
          allowedRoomIds =
            (if useRoomConstraints
             then Some (buildAllowedRoomIds eng opts (optPublicRoomDoorCount opts) (optPublicRoomArea opts)
                          startRoom endRoom roomTraversalMode)
             else None);
          hasAllowedRooms = (case allowedRoomIds of Some a \<Rightarrow> a \<noteq> [] | None \<Rightarrow> False);
          applyRoomConstraints = (useRoomConstraints \<and> hasAllowedRooms)
      in opts\<lparr>o_disallowOtherRooms := applyRoomConstraints,
               o_allowedRoomIds := (if applyRoomConstraints then allowedRoomIds else None),
               o_nodeFilter := Some (routeNodeFilter opts (optAllowLockedDoors opts))\<rparr>)"

text \<open>The route of the same-room shortcut.\<close>

definition sameRoomRoute :: "turf \<Rightarrow> coord \<Rightarrow> coord \<Rightarrow> floor_id \<Rightarrow> floor_id \<Rightarrow> room \<Rightarrow> room \<Rightarrow> route" where
  "sameRoomRoute T startCoords endCoords startFloorId endFloorId startRoom endRoom =
     (let distance = turf_distance T startCoords endCoords
      in \<lparr>r_path = [startCoords, endCoords],
          r_nodeIds = [],
          r_distance = distance,
          r_floors = [startFloorId, endFloorId],
          r_segments = [\<lparr>s_from = ''start'', s_to = ''end'', s_fromCoords = startCoords,
                         s_toCoords = endCoords, s_distance = distance, s_floorChange = False,
                         s_fromFloor = startFloorId, s_toFloor = endFloorId\<rparr>],
          r_startNode = None,
          r_endNode = None,
          r_meta = \<lparr>m_startCoords = startCoords, m_endCoords = endCoords,
                     m_startFloorId = startFloorId, m_endFloorId = endFloorId,
                     m_startRoomId = Some (rm_geometryId startRoom),
                     m_endRoomId = Some (rm_geometryId endRoom),
                     m_startDoorId = None, m_endDoorId = None,
                     m_sameRoom = True, m_roomTraversalMode = None\<rparr>\<rparr>)"

text \<open>The route assembled from the best attempt.\<close>

definition graphRoute :: "coord \<Rightarrow> coord \<Rightarrow> floor_id \<Rightarrow> floor_id \<Rightarrow> room option \<Rightarrow> room option \<Rightarrow> attempt \<Rightarrow> string \<Rightarrow> route" where
  "graphRoute startCoords endCoords startFloorId endFloorId startRoom endRoom att effectiveTraversalMode =
     (case att of (best, bestStart, bestEnd, bestDistance) \<Rightarrow>
        \<lparr>r_path = ap_coords best,
         r_nodeIds = ap_nodeIds best,
         r_distance = bestDistance,
         r_floors = ap_floors best,
         r_segments = ap_segments best,
         r_startNode = Some bestStart,
         r_endNode = Some bestEnd,
         r_meta = \<lparr>m_startCoords = startCoords, m_endCoords = endCoords,
                    m_startFloorId = startFloorId, m_endFloorId = endFloorId,
                    m_startRoomId = map_option rm_geometryId startRoom,
                    m_endRoomId = map_option rm_geometryId endRoom,
                    m_startDoorId = (if md_isDoor (n_metadata bestStart) then Some (n_id bestStart) else None),
                    m_endDoorId = (if md_isDoor (n_metadata bestEnd) then Some (n_id bestEnd) else None),
                    m_sameRoom = False,
                    m_roomTraversalMode = Some effectiveTraversalMode\<rparr>\<rparr>)"

text \<open>\<open>findRoute\<close> from the candidate lists on (step 2 of the source to the end), for the
  rooms found at the endpoints.\<close>

definition findRouteSearch :: "turf \<Rightarrow> engine \<Rightarrow> coord \<Rightarrow> coord \<Rightarrow> floor_id \<Rightarrow> floor_id \<Rightarrow> options \<Rightarrow> room option \<Rightarrow> room option \<Rightarrow> findRouteResult" where
  "findRouteSearch T eng startCoords endCoords startFloorId endFloorId opts startRoom endRoom =
     (let startNode = (case findNearestWalkableNode eng startCoords startFloorId of
                         Some n \<Rightarrow> Some n
                       | None \<Rightarrow> findNearestNode (eg_graph eng) startCoords startFloorId);
          endNode = (case findNearestWalkableNode eng endCoords endFloorId of
                       Some n \<Rightarrow> Some n
                     | None \<Rightarrow> findNearestNode (eg_graph eng) endCoords endFloorId);
          startCandidates =
            pushUnique (pushUnique [] (case startNode of Some n \<Rightarrow> [n] | None \<Rightarrow> []))
              (case doorResult eng opts startRoom of Some d \<Rightarrow> dc_available d | None \<Rightarrow> []);
          endCandidates =
            pushUnique (pushUnique [] (case endNode of Some n \<Rightarrow> [n] | None \<Rightarrow> []))
              (case doorResult eng opts endRoom of Some d \<Rightarrow> dc_available d | None \<Rightarrow> []);
          startConnectable = connectable T eng startCoords startFloorId startRoom startCandidates;
          endConnectable = connectable T eng endCoords endFloorId endRoom endCandidates
      in if startConnectable = []
         then Some (Inr (setRouteError eng ''blocked''
                ''Cannot find a path from this location. Try clicking closer to a walkable area.'', None))
         else if endConnectable = []
         then Some (Inr (setRouteError eng ''blocked''
                ''Cannot find a path to this destination. Try clicking closer to a walkable area.'', None))
         else
           (let ropts = routeOptions eng opts startRoom endRoom;
                applyRoomConstraints = o_disallowOtherRooms ropts
            in case findBestPath T (eg_graph eng) startCoords endCoords startConnectable endConnectable ropts of
                 None \<Rightarrow> None
               | Some attempt1 \<Rightarrow>
                   (case (if attempt1 = None \<and> applyRoomConstraints
                          then map_option (\<lambda>a. (a, ''all''))
                                 (findBestPath T (eg_graph eng) startCoords endCoords startConnectable endConnectable
                                    (ropts\<lparr>o_disallowOtherRooms := False, o_allowedRoomIds := None\<rparr>))
                          else Some (attempt1, if applyRoomConstraints then optRoomTraversalMode opts else ''all'')) of
                      None \<Rightarrow> None
                    | Some (None, effectiveTraversalMode) \<Rightarrow>
                        Some (Inr (setRouteError eng ''no-path'' ''No path available from this location.'', None))
                    | Some (Some att, effectiveTraversalMode) \<Rightarrow>
                        (let rt = graphRoute startCoords endCoords startFloorId endFloorId startRoom endRoom
                                    att effectiveTraversalMode
                         in Some (Inr ((if o_useCache opts \<noteq> Some False
                                        then eng\<lparr>pathCache := cacheSet (pathCache eng) startCoords endCoords
                                                                   startFloorId endFloorId opts rt\<rparr>
                                        else eng), Some rt))))))"

text \<open>\<open>sameRoom = startRoom && endRoom && startRoom.geometryId === endRoom.geometryId\<close>;
  the result holds the two rooms when \<open>sameRoom\<close> is true.\<close>

definition sameRoomOf :: "room option \<Rightarrow> room option \<Rightarrow> (room \<times> room) option" where
  "sameRoomOf startRoom endRoom =
     (case startRoom of
        None \<Rightarrow> None
      | Some sr \<Rightarrow>
          (case endRoom of
             None \<Rightarrow> None
           | Some er \<Rightarrow> if rm_geometryId sr = rm_geometryId er then Some (sr, er) else None))"

text \<open>The test \<open>useDoors && doorResult && doorResult.available.length === 0\<close> and the
  message of the error that follows it.\<close>

definition doorFailure :: "doorCandidates option \<Rightarrow> string \<Rightarrow> string \<Rightarrow> string option" where
  "doorFailure dr lockedMessage missingMessage =
     (case dr of
        None \<Rightarrow> None
      | Some d \<Rightarrow>
          if dc_available d = []
          then Some (if dc_total d > 0 then lockedMessage else missingMessage)
          else None)"

text \<open>\<open>findRoute\<close> after the cache lookup has missed: the error slot is reset, the rooms
  of the endpoints are looked up, then the same-room shortcut and the door checks.\<close>

definition findRouteFresh :: "turf \<Rightarrow> engine \<Rightarrow> coord \<Rightarrow> coord \<Rightarrow> floor_id \<Rightarrow> floor_id \<Rightarrow> options \<Rightarrow> findRouteResult" where
  "findRouteFresh T eng0 startCoords endCoords startFloorId endFloorId opts =
     (let eng = eng0\<lparr>lastRouteError := None\<rparr>;
          startRoom = (if optSnapToDoors opts then findRoomAtPoint T eng startCoords startFloorId else None);
          endRoom = (if optSnapToDoors opts then findRoomAtPoint T eng endCoords endFloorId else None)
      in case sameRoomOf startRoom endRoom of
           Some (sr, er) \<Rightarrow>
             if isPathClear T (eg_collisionDetector eng) startCoords endCoords startFloorId
             then Some (Inr (eng, Some (sameRoomRoute T startCoords endCoords startFloorId endFloorId sr er)))
             else Some (Inr (setRouteError eng ''no-path'' ''No clear path inside this room.'', None))
         | None \<Rightarrow>
             (case doorFailure (doorResult eng opts startRoom)
                     ''All doors are locked for the start room.'' ''No doors found for the start room.'' of
                Some message \<Rightarrow> Some (Inr (setRouteError eng ''no-door'' message, None))
              | None \<Rightarrow>
                  (case doorFailure (doorResult eng opts endRoom)
                          ''All doors are locked for the destination room.''
                          ''No doors found for the destination room.'' of
                     Some message \<Rightarrow> Some (Inr (setRouteError eng ''no-door'' message, None))
                   | None \<Rightarrow>
                       findRouteSearch T eng startCoords endCoords startFloorId endFloorId opts startRoom endRoom)))"

definition findRoute :: "turf \<Rightarrow> engine \<Rightarrow> coord \<Rightarrow> coord \<Rightarrow> floor_id \<Rightarrow> floor_id \<Rightarrow> options \<Rightarrow> findRouteResult" where
  "findRoute T eng startCoords endCoords startFloorId endFloorId opts =
     (if \<not> initialized eng
      then Some (Inl ''PathfindingEngine not initialized. Call initialize() first.'')
      else
        (case (if o_useCache opts \<noteq> Some False
               then cacheGet (pathCache eng) startCoords endCoords startFloorId endFloorId opts
               else (None, pathCache eng)) of
           (Some cached, pc) \<Rightarrow> Some (Inr (eng\<lparr>pathCache := pc\<rparr>, Some cached))
         | (None, pc) \<Rightarrow> findRouteFresh T eng startCoords endCoords startFloorId endFloorId opts))"

section \<open>DirectionsUI\<close>

definition coordsEqual :: "coord \<Rightarrow> coord \<Rightarrow> bool" where
  "coordsEqual a b = (\<bar>fst a - fst b\<bar> < 1 / 10 ^ 7 \<and> \<bar>snd a - snd b\<bar> < 1 / 10 ^ 7)"

record enrichedRoute = route +
  er_warnings :: "string list"

text \<open>
  \<open>withRouteEndpoints\<close>, for a route with a non-empty path (\<open>findRoute\<close> returns no other).
  On an empty path the source hands \<open>undefined\<close> coordinates to the geometry library; the
  model has the result \<open>None\<close> there. The detector is an option because the source tests
  \<open>!detector\<close>.
\<close>

definition withRouteEndpoints :: "turf \<Rightarrow> collisionDetector option \<Rightarrow> route \<Rightarrow> coord \<Rightarrow> coord \<Rightarrow> floor_id \<Rightarrow> floor_id \<Rightarrow> enrichedRoute option" where
  "withRouteEndpoints T detector rt startCoords endCoords startFloorId endFloorId =
     (if r_path rt = [] then None
      else
        let path0 = r_path rt;
            first = hd path0;
            lst = last path0;
            startDiffers = \<not> coordsEqual first startCoords;
            startClear = (case detector of None \<Rightarrow> True
                          | Some cd \<Rightarrow> isPathClear T cd startCoords first startFloorId);
            addedStart = (startDiffers \<and> startClear);
            endDiffers = \<not> coordsEqual lst endCoords;
            endClear = (case detector of None \<Rightarrow> True
                        | Some cd \<Rightarrow> isPathClear T cd lst endCoords endFloorId);
            addedEnd = (endDiffers \<and> endClear);
            path = (if addedStart then [startCoords] else []) @ path0 @ (if addedEnd then [endCoords] else []);
            warnings = (if startDiffers \<and> \<not> startClear then [''Start point is blocked by walls.''] else [])
                       @ (if endDiffers \<and> \<not> endClear then [''Destination is blocked by walls.''] else []);
            floors0 = (if r_floors rt \<noteq> []
                       then (if addedStart then [startFloorId] else []) @ r_floors rt
                              @ (if addedEnd then [endFloorId] else [])
                       else []);
            floors = (if length floors0 \<noteq> length path
                      then map (\<lambda>index. if index = 0 then startFloorId
                                         else if index = length path - 1 then endFloorId
                                         else startFloorId) [0 ..< length path]
                      else floors0)
        in Some (route.extend (rt\<lparr>r_path := path, r_floors := floors\<rparr>)
                   (enrichedRoute.fields warnings)))"

section \<open>NavigationController\<close>

record userLocation =
  ul_coords :: coord
  ul_floorId :: floor_id
  ul_snappedCoords :: "coord option"

record destination =
  d_coords :: "coord option"
  d_floorId :: floor_id

text \<open>
  The route that \<open>computeRoute\<close> returns: the route of \<open>findRoute\<close> with the properties
  that \<open>computeRoute\<close> adds (\<open>startInside\<close> and \<open>endInside\<close> go into \<open>meta\<close> in the
  source). The source adds them to the object that \<open>findRoute\<close> returned, which may be the
  object in the path cache; \<open>findRoute\<close> reads none of them.
\<close>

record navRoute = route +
  nr_fullPath :: "coord list"
  nr_startCoords :: coord
  nr_endCoords :: coord
  nr_anchorStartCoords :: coord
  nr_anchorEndCoords :: coord
  nr_startInside :: bool
  nr_endInside :: bool

record navigationController =
  nc_initialized :: bool
  nc_engine :: engine
  nc_userLocation :: "userLocation option"
  nc_destination :: "destination option"
  nc_walkableAreas :: "geometry list option"
  nc_groundFloorId :: "floor_id option"
  nc_currentRoute :: "navRoute option"

text \<open>The loop of \<open>isInsideWalkableArea\<close>; an exception of the containment test is not
  caught (\<open>None\<close>).\<close>

fun areaLoop :: "turf \<Rightarrow> coord \<Rightarrow> geometry list \<Rightarrow> bool option" where
  "areaLoop T p [] = Some False"
| "areaLoop T p (area # areas) =
     (if (case area of Polygon rings \<Rightarrow> True | MultiPolygon polys \<Rightarrow> True | _ \<Rightarrow> False)
      then (case turf_booleanPointInPolygon T p area of
              None \<Rightarrow> None
            | Some inside \<Rightarrow> if inside then Some True else areaLoop T p areas)
      else areaLoop T p areas)"

definition isInsideWalkableArea :: "turf \<Rightarrow> navigationController \<Rightarrow> coord \<Rightarrow> bool option" where
  "isInsideWalkableArea T nc coords =
     (case nc_walkableAreas nc of
        None \<Rightarrow> Some False
      | Some areas \<Rightarrow> areaLoop T coords areas)"

text \<open>The \<open>forEach\<close> of \<open>findNearestEntranceNode\<close>; \<open>bestDist\<close> starts as \<open>Infinity\<close>.\<close>

fun entranceLoop :: "turf \<Rightarrow> coord \<Rightarrow> node option \<Rightarrow> real option \<Rightarrow> node list \<Rightarrow> node option" where
  "entranceLoop T c nearest bestDist [] = nearest"
| "entranceLoop T c nearest bestDist (nd # nds) =
     (if (case bestDist of None \<Rightarrow> True | Some b \<Rightarrow> turf_distance T c (n_coords nd) < b)
      then entranceLoop T c (Some nd) (Some (turf_distance T c (n_coords nd))) nds
      else entranceLoop T c nearest bestDist nds)"

text \<open>\<open>findNearestEntranceNode(coords)\<close>, with the ground floor as the preferred floor.\<close>

definition findNearestEntranceNode :: "turf \<Rightarrow> navigationController \<Rightarrow> coord \<Rightarrow> node option" where
  "findNearestEntranceNode T nc coords =
     (let entrances = filter (\<lambda>nd. n_type nd = ''entrance'') (allNodes (eg_graph (nc_engine nc)));
          candidates =
            (case nc_groundFloorId nc of
               None \<Rightarrow> entrances
             | Some preferredFloorId \<Rightarrow>
                 if preferredFloorId = [] then entrances
                 else if filter (\<lambda>nd. n_floorId nd = preferredFloorId) entrances \<noteq> []
                 then filter (\<lambda>nd. n_floorId nd = preferredFloorId) entrances
                 else entrances)
      in if candidates = [] then None else entranceLoop T coords None None candidates)"

text \<open>The properties that \<open>computeRoute\<close> adds to a route.\<close>

definition decorateRoute :: "route \<Rightarrow> coord \<Rightarrow> coord \<Rightarrow> coord \<Rightarrow> coord \<Rightarrow> bool \<Rightarrow> bool \<Rightarrow> navRoute" where
  "decorateRoute rt rawStartCoords rawEndCoords startCoords endCoords startInside endInside =
     route.extend rt
       (navRoute.fields ([rawStartCoords] @ r_path rt @ [rawEndCoords]) rawStartCoords rawEndCoords
          startCoords endCoords startInside endInside)"

text \<open>
  \<open>computeRoute(options)\<close>. The result is \<open>Some (Inl message)\<close> when \<open>findRoute\<close> throws,
  \<open>Some (Inr (controller', result))\<close> when it returns, and \<open>None\<close> when the containment test
  throws or the graph search does not return.
\<close>

definition computeRoute :: "turf \<Rightarrow> navigationController \<Rightarrow> options \<Rightarrow> (string + navigationController \<times> navRoute option) option" where
  "computeRoute T nc opts =
     (if \<not> nc_initialized nc then Some (Inr (nc, None))
      else
        (case nc_userLocation nc of
           None \<Rightarrow> Some (Inr (nc, None))
         | Some ul \<Rightarrow>
             (case nc_destination nc of
                None \<Rightarrow> Some (Inr (nc, None))
              | Some dest \<Rightarrow>
                  (case d_coords dest of
                     None \<Rightarrow> Some (Inr (nc, None))
                   | Some rawEndCoords \<Rightarrow>
                       (case isInsideWalkableArea T nc (ul_coords ul) of
                          None \<Rightarrow> None
                        | Some startInside \<Rightarrow>
                            (case isInsideWalkableArea T nc rawEndCoords of
                               None \<Rightarrow> None
                             | Some endInside \<Rightarrow>
                                 let rawStartCoords = ul_coords ul;
                                     start0 = (case ul_snappedCoords ul of Some c \<Rightarrow> c | None \<Rightarrow> rawStartCoords);
                                     startEntrance =
                                       (if \<not> startInside \<and> endInside
                                        then findNearestEntranceNode T nc rawStartCoords else None);
                                     endEntrance =
                                       (if \<not> (\<not> startInside \<and> endInside) \<and> startInside \<and> \<not> endInside
                                        then findNearestEntranceNode T nc rawEndCoords else None);
                                     startCoords = (case startEntrance of Some en \<Rightarrow> n_coords en | None \<Rightarrow> start0);
                                     startFloorId = (case startEntrance of Some en \<Rightarrow> n_floorId en | None \<Rightarrow> ul_floorId ul);
                                     endCoords = (case endEntrance of Some en \<Rightarrow> n_coords en | None \<Rightarrow> rawEndCoords);
                                     endFloorId = (case endEntrance of Some en \<Rightarrow> n_floorId en | None \<Rightarrow> d_floorId dest)
                                 in if \<not> startInside \<and> \<not> endInside
                                    then Some (Inr (nc\<lparr>nc_currentRoute := None\<rparr>, None))
                                    else
                                      (case findRoute T (nc_engine nc) startCoords endCoords startFloorId endFloorId opts of
                                         None \<Rightarrow> None
                                       | Some (Inl message) \<Rightarrow> Some (Inl message)
                                       | Some (Inr (eng', None)) \<Rightarrow> Some (Inr (nc\<lparr>nc_engine := eng'\<rparr>, None))
                                       | Some (Inr (eng', Some rt)) \<Rightarrow>
                                           let nr = decorateRoute rt rawStartCoords rawEndCoords startCoords endCoords
                                                      startInside endInside
                                           in Some (Inr (nc\<lparr>nc_engine := eng', nc_currentRoute := Some nr\<rparr>,
                                                         Some nr)))))))))"

section \<open>A small building, for the concrete instances\<close>

text \<open>
  A planar stand-in for the geometry library, on axis-parallel boxes: a polygon
  \<open>Polygon [[lo, hi]]\<close> is the box with the corners \<open>lo\<close> and \<open>hi\<close>; a segment meets a box
  when their bounding boxes overlap; distances are taxicab distances at 111320 meters per
  degree. Any other geometry makes the call throw.
\<close>

definition taxicabMeters :: "coord \<Rightarrow> coord \<Rightarrow> real" where
  "taxicabMeters a b = (\<bar>fst a - fst b\<bar> + \<bar>snd a - snd b\<bar>) * 111320"

definition demoTurf :: turf where
  "demoTurf =
     \<lparr>turf_distance = taxicabMeters,
      turf_booleanPointInPolygon =
        (\<lambda>p g. case g of
                 Polygon [[lo, hi]] \<Rightarrow>
                   Some (fst lo \<le> fst p \<and> fst p \<le> fst hi \<and> snd lo \<le> snd p \<and> snd p \<le> snd hi)
               | _ \<Rightarrow> None),
      turf_lineIntersect =
        (\<lambda>a b g. case g of
                   Polygon [[lo, hi]] \<Rightarrow>
                     Some (if max (min (fst a) (fst b)) (fst lo) \<le> min (max (fst a) (fst b)) (fst hi)
                              \<and> max (min (snd a) (snd b)) (snd lo) \<le> min (max (snd a) (snd b)) (snd hi)
                           then [lo] else [])
                 | _ \<Rightarrow> None),
      turf_pointToLineDistance =
        (\<lambda>p g. case g of LineString (q # qs) \<Rightarrow> Some (taxicabMeters p q) | _ \<Rightarrow> None)\<rparr>"

text \<open>
  One floor \<open>F0\<close>. The room \<open>R1\<close> is the box from (0, 0) to (8e-5, 5e-5) degrees, about
  9 m by 5.5 m, with a single, locked door \<open>door_D1\<close> in its east wall. A piece of
  furniture stands in the room, the box from (4e-5, 0) to (5e-5, 3e-5). The walkable nodes
  \<open>N1\<close>, \<open>N2\<close>, \<open>N3\<close> are in the room, \<open>N4\<close> and \<open>N5\<close> in the corridor east of it.
  The nearest-node queries of the graph return the node of the floor that is nearest in the
  plane; the radius query returns nothing.
\<close>

definition plainMetadata :: metadata where
  "plainMetadata =
     \<lparr>md_isDoor = False, md_isLocked = False, md_isPublic = False, md_isStairs = False,
      md_isElevator = False, md_roomIds = None, md_roomId = None\<rparr>"

definition roomNode :: "node_id \<Rightarrow> coord \<Rightarrow> node" where
  "roomNode i c =
     \<lparr>n_id = i, n_coords = c, n_floorId = ''F0'', n_type = ''walkable'',
      n_metadata = plainMetadata\<lparr>md_roomIds := Some [''R1''], md_roomId := Some ''R1''\<rparr>\<rparr>"

definition corridorNode :: "node_id \<Rightarrow> coord \<Rightarrow> node" where
  "corridorNode i c =
     \<lparr>n_id = i, n_coords = c, n_floorId = ''F0'', n_type = ''walkable'', n_metadata = plainMetadata\<rparr>"

definition nodeN1 :: node where "nodeN1 = roomNode ''N1'' (2 / 10 ^ 5, 1 / 10 ^ 5)"
definition nodeN2 :: node where "nodeN2 = roomNode ''N2'' (7 / 10 ^ 5, 1 / 10 ^ 5)"
definition nodeN3 :: node where "nodeN3 = roomNode ''N3'' (4 / 10 ^ 5, 4 / 10 ^ 5)"
definition nodeN4 :: node where "nodeN4 = corridorNode ''N4'' (12 / 10 ^ 5, 1 / 10 ^ 5)"
definition nodeN5 :: node where "nodeN5 = corridorNode ''N5'' (15 / 10 ^ 5, 1 / 10 ^ 5)"

text \<open>Two more points of the room, 3 m east and 4 m north of each other, for the edge builder.\<close>

definition nodeP1 :: node where "nodeP1 = roomNode ''P1'' (0, 0)"
definition nodeP2 :: node where "nodeP2 = roomNode ''P2'' (3 / 111320, 4 / 111320)"

definition doorD1 :: node where
  "doorD1 =
     \<lparr>n_id = ''door_D1'', n_coords = (8 / 10 ^ 5, 1 / 10 ^ 5), n_floorId = ''F0'', n_type = ''door'',
      n_metadata = \<lparr>md_isDoor = True, md_isLocked = True, md_isPublic = False, md_isStairs = False,
                     md_isElevator = False, md_roomIds = Some [''R1''], md_roomId = Some ''R1''\<rparr>\<rparr>"

definition walkableEdge :: "node_id \<Rightarrow> real \<Rightarrow> edge" where
  "walkableEdge target w = \<lparr>e_target = target, e_weight = Some w, e_type = ''walkable'', e_accessible = True\<rparr>"

definition demoGraph :: graph where
  "demoGraph =
     \<lparr>allNodes = [nodeN1, nodeN2, nodeN3, nodeN4, nodeN5, doorD1],
      getNode = [''N1'' \<mapsto> nodeN1, ''N2'' \<mapsto> nodeN2, ''N3'' \<mapsto> nodeN3, ''N4'' \<mapsto> nodeN4,
                 ''N5'' \<mapsto> nodeN5, ''door_D1'' \<mapsto> doorD1],
      getEdges =
        (\<lambda>i. if i = ''N1'' then [walkableEdge ''N3'' 4]
             else if i = ''N3'' then [walkableEdge ''N1'' 4, walkableEdge ''N2'' 5]
             else if i = ''N2'' then [walkableEdge ''N3'' 5, walkableEdge ''door_D1'' 1]
             else if i = ''door_D1'' then [walkableEdge ''N2'' 1, walkableEdge ''N4'' 4]
             else if i = ''N4'' then [walkableEdge ''door_D1'' 4, walkableEdge ''N5'' 3]
             else if i = ''N5'' then [walkableEdge ''N4'' 3]
             else []),
      findNearestNode =
        (\<lambda>c f. nearestLoop c None None
                 (filter (\<lambda>nd. n_floorId nd = f) [nodeN1, nodeN2, nodeN3, nodeN4, nodeN5, doorD1])),
      findNearestNodesInRadius = (\<lambda>c f r k. []),
      findNearestNodeExpanded =
        (\<lambda>c f. nearestLoop c None None
                 (filter (\<lambda>nd. n_floorId nd = f) [nodeN1, nodeN2, nodeN3, nodeN4, nodeN5, doorD1]))\<rparr>"

definition demoDetector :: collisionDetector where
  "demoDetector =
     \<lparr>obstacles = [''F0'' \<mapsto> [\<lparr>ob_feature = Polygon [[(4 / 10 ^ 5, 0), (5 / 10 ^ 5, 3 / 10 ^ 5)]],
                                ob_bbox = Some (4 / 10 ^ 5, 0, 5 / 10 ^ 5, 3 / 10 ^ 5)\<rparr>]],
      doorSegments = Map.empty,
      doorToleranceMeters = 6 / 10\<rparr>"

definition roomR1 :: room where
  "roomR1 =
     \<lparr>rm_geometryId = ''R1'', rm_floorId = ''F0'',
      rm_feature = Polygon [[(0, 0), (8 / 10 ^ 5, 5 / 10 ^ 5)]],
      rm_buffer = Some (Polygon [[(- (3 / 10 ^ 6), - (3 / 10 ^ 6)), (83 / 10 ^ 6, 53 / 10 ^ 6)]]),
      rm_bbox = (- (3 / 10 ^ 6), - (3 / 10 ^ 6), 83 / 10 ^ 6, 53 / 10 ^ 6)\<rparr>"

definition demoEngine :: engine where
  "demoEngine =
     \<lparr>initialized = True,
      eg_graph = demoGraph,
      eg_collisionDetector = demoDetector,
      roomIndex = [''F0'' \<mapsto> [roomR1]],
      roomDoorIndex = [''R1'' \<mapsto> [doorD1]],
      roomMeta = [(''R1'', \<lparr>rme_area = 50, rme_doorCount = 1, rme_publicDoorCount = 0\<rparr>)],
      walkableNodesByFloor = [''F0'' \<mapsto> [nodeN1, nodeN2, nodeN3, nodeN4, nodeN5]],
      lastRouteError = None,
      pathCache = \<lparr>pc_cache = [], pc_maxSize = 100\<rparr>\<rparr>"

text \<open>
  A second graph, for the search: \<open>S\<close>, \<open>A\<close> and the goal \<open>G\<close> are on floor \<open>F0\<close>, the
  landing \<open>B\<close> is on floor \<open>F1\<close>, all at the same coordinates. The direct edge from \<open>S\<close>
  to \<open>A\<close> weighs 10, the way over \<open>B\<close> weighs 1 + 1.
\<close>

definition detourNode :: "node_id \<Rightarrow> floor_id \<Rightarrow> node" where
  "detourNode i f =
     \<lparr>n_id = i, n_coords = (0, 0), n_floorId = f, n_type = ''walkable'', n_metadata = plainMetadata\<rparr>"

definition detourGraph :: graph where
  "detourGraph =
     \<lparr>allNodes = [detourNode ''S'' ''F0'', detourNode ''A'' ''F0'', detourNode ''B'' ''F1'', detourNode ''G'' ''F0''],
      getNode = [''S'' \<mapsto> detourNode ''S'' ''F0'', ''A'' \<mapsto> detourNode ''A'' ''F0'',
                 ''B'' \<mapsto> detourNode ''B'' ''F1'', ''G'' \<mapsto> detourNode ''G'' ''F0''],
      getEdges =
        (\<lambda>i. if i = ''S'' then [walkableEdge ''A'' 10, walkableEdge ''B'' 1]
             else if i = ''B'' then [walkableEdge ''A'' 1]
             else if i = ''A'' then [walkableEdge ''G'' 5]
             else []),
      findNearestNode = (\<lambda>c f. None),
      findNearestNodesInRadius = (\<lambda>c f r k. []),
      findNearestNodeExpanded = (\<lambda>c f. None)\<rparr>"

text \<open>The state of the search from \<open>S\<close> to \<open>G\<close> when \<open>B\<close> has been popped and put in the
  closed set, before the edges of \<open>B\<close> are examined: \<open>A\<close> is closed with score 10.\<close>

definition detourStateAtB :: astarState where
  "detourStateAtB =
     \<lparr>openSet = [\<lparr>q_nodeId = ''G'', q_priority = 15\<rparr>],
      closedSet = {''S'', ''A'', ''B''},
      gScore = [''S'' \<mapsto> 0, ''A'' \<mapsto> 10, ''B'' \<mapsto> 1, ''G'' \<mapsto> 15],
      fScore = [''S'' \<mapsto> 0, ''A'' \<mapsto> 10, ''B'' \<mapsto> 11, ''G'' \<mapsto> 15],
      cameFrom = [''A'' \<mapsto> ''S'', ''B'' \<mapsto> ''S'', ''G'' \<mapsto> ''A'']\<rparr>"

text \<open>The same state with \<open>A\<close> still open.\<close>

definition detourStateOpenA :: astarState where
  "detourStateOpenA = detourStateAtB\<lparr>closedSet := {''S'', ''B''}\<rparr>"

text \<open>The empty options object \<open>{}\<close>.\<close>

definition defaultOptions :: options where
  "defaultOptions =
     \<lparr>o_useCache = None, o_snapToDoors = None, o_allowLockedDoors = None,
      o_roomTraversalMode = None, o_publicRoomDoorCount = None, o_publicRoomArea = None,
      o_allowedRoomIds = None, o_disallowOtherRooms = False, o_nodeFilter = None,
      o_accessibleOnly = False, o_avoidStairs = False, o_heuristicWeight = None\<rparr>"

text \<open>Points of the small building where queries start and end: four in the room, one
  inside the furniture, two in the corridor. The furniture stands between \<open>roomSW\<close>
  and \<open>roomSE\<close>.\<close>

definition roomNW :: coord where "roomNW = (1 / 10 ^ 5, 4 / 10 ^ 5)"
definition roomNE :: coord where "roomNE = (7 / 10 ^ 5, 4 / 10 ^ 5)"
definition roomSW :: coord where "roomSW = (1 / 10 ^ 5, 1 / 10 ^ 5)"
definition roomSE :: coord where "roomSE = (6 / 10 ^ 5, 1 / 10 ^ 5)"
definition inFurniture :: coord where "inFurniture = (45 / 10 ^ 6, 1 / 10 ^ 5)"
definition corridorW :: coord where "corridorW = (11 / 10 ^ 5, 1 / 10 ^ 5)"
definition corridorE :: coord where "corridorE = (16 / 10 ^ 5, 1 / 10 ^ 5)"

text \<open>
  The routes that the graph search finds in the small building: along the corridor from
  \<open>N4\<close> to \<open>N5\<close>; across the room from \<open>N3\<close> to \<open>N2\<close>; around the furniture from
  \<open>N1\<close> over \<open>N3\<close> to \<open>N2\<close>. Each is the route of the query between the two points in its
  \<open>r_meta\<close>.
\<close>

definition nodeSegment :: "node \<Rightarrow> node \<Rightarrow> segment" where
  "nodeSegment a b =
     \<lparr>s_from = n_id a, s_to = n_id b, s_fromCoords = n_coords a, s_toCoords = n_coords b,
      s_distance = taxicabMeters (n_coords a) (n_coords b), s_floorChange = False,
      s_fromFloor = ''F0'', s_toFloor = ''F0''\<rparr>"

definition graphMeta :: "coord \<Rightarrow> coord \<Rightarrow> routeMeta" where
  "graphMeta startCoords endCoords =
     \<lparr>m_startCoords = startCoords, m_endCoords = endCoords,
      m_startFloorId = ''F0'', m_endFloorId = ''F0'',
      m_startRoomId = None, m_endRoomId = None, m_startDoorId = None, m_endDoorId = None,
      m_sameRoom = False, m_roomTraversalMode = Some ''all''\<rparr>"

definition corridorRoute :: route where
  "corridorRoute =
     \<lparr>r_path = [(12 / 10 ^ 5, 1 / 10 ^ 5), (15 / 10 ^ 5, 1 / 10 ^ 5)],
      r_nodeIds = [''N4'', ''N5''],
      r_distance = 3 + 2 * (111320 / 10 ^ 5),
      r_floors = [''F0'', ''F0''],
      r_segments = [nodeSegment nodeN4 nodeN5],
      r_startNode = Some nodeN4,
      r_endNode = Some nodeN5,
      r_meta = graphMeta corridorW corridorE\<rparr>"

definition acrossRoomRoute :: route where
  "acrossRoomRoute =
     \<lparr>r_path = [(4 / 10 ^ 5, 4 / 10 ^ 5), (7 / 10 ^ 5, 1 / 10 ^ 5)],
      r_nodeIds = [''N3'', ''N2''],
      r_distance = 5 + 6 * (111320 / 10 ^ 5),
      r_floors = [''F0'', ''F0''],
      r_segments = [nodeSegment nodeN3 nodeN2],
      r_startNode = Some nodeN3,
      r_endNode = Some nodeN2,
      r_meta = graphMeta roomNW roomNE\<rparr>"

definition aroundFurnitureRoute :: route where
  "aroundFurnitureRoute =
     \<lparr>r_path = [(2 / 10 ^ 5, 1 / 10 ^ 5), (4 / 10 ^ 5, 4 / 10 ^ 5), (7 / 10 ^ 5, 1 / 10 ^ 5)],
      r_nodeIds = [''N1'', ''N3'', ''N2''],
      r_distance = 9 + 2 * (111320 / 10 ^ 5),
      r_floors = [''F0'', ''F0'', ''F0''],
      r_segments = [nodeSegment nodeN1 nodeN3, nodeSegment nodeN3 nodeN2],
      r_startNode = Some nodeN1,
      r_endNode = Some nodeN2,
      r_meta = graphMeta roomSW roomSE\<rparr>"

text \<open>The engine of the small building with one route in its path cache.\<close>

definition demoEngineWith :: "cacheKey \<Rightarrow> route \<Rightarrow> engine" where
  "demoEngineWith key rt = demoEngine\<lparr>pathCache := \<lparr>pc_cache = [(key, rt)], pc_maxSize = 100\<rparr>\<rparr>"

text \<open>The error that a query out of the locked room records.\<close>

definition lockedStartError :: routeError where
  "lockedStartError = \<lparr>re_code = ''no-door'', re_message = ''All doors are locked for the start room.''\<rparr>"

text \<open>
  A navigation controller over the small building, with the user at \<open>roomSW\<close> and the
  destination at \<open>roomSE\<close>. The room is its walkable area.
\<close>

definition demoController :: navigationController where
  "demoController =
     \<lparr>nc_initialized = True,
      nc_engine = demoEngine,
      nc_userLocation = Some \<lparr>ul_coords = roomSW, ul_floorId = ''F0'', ul_snappedCoords = None\<rparr>,
      nc_destination = Some \<lparr>d_coords = Some roomSE, d_floorId = ''F0''\<rparr>,
      nc_walkableAreas = Some [Polygon [[(0, 0), (8 / 10 ^ 5, 5 / 10 ^ 5)]]],
      nc_groundFloorId = Some ''F0'',
      nc_currentRoute = None\<rparr>"






text \<open>The options \<open>{ snapToDoors: false }\<close>.\<close>

definition noSnapOptions :: options where
  "noSnapOptions = defaultOptions\<lparr>o_snapToDoors := Some False\<rparr>"

section \<open>Conditions of the claims\<close>

text \<open>The lookup of the path cache misses, or the query disables the cache.\<close>

definition cacheMiss :: "engine \<Rightarrow> coord \<Rightarrow> coord \<Rightarrow> floor_id \<Rightarrow> floor_id \<Rightarrow> options \<Rightarrow> bool" where
  "cacheMiss eng startCoords endCoords startFloorId endFloorId opts =
     (o_useCache opts = Some False
      \<or> fst (cacheGet (pathCache eng) startCoords endCoords startFloorId endFloorId opts) = None)"

text \<open>The running best of the candidate loops is still the initial \<open>null\<close>, or its path is
  the result of the search between its two candidates.\<close>

definition fromSearch :: "turf \<Rightarrow> graph \<Rightarrow> options \<Rightarrow> attempt option \<Rightarrow> bool" where
  "fromSearch T g optionsForPath att =
     (case att of
        None \<Rightarrow> True
      | Some (best, bestStart, bestEnd, bestDistance) \<Rightarrow>
          findPath T g (n_id bestStart) (n_id bestEnd) optionsForPath = Some (Some best))"

text \<open>The room (if any) is private, has at least one door, and all its doors are locked.\<close>

definition privateRoomAllLocked :: "engine \<Rightarrow> options \<Rightarrow> room option \<Rightarrow> bool" where
  "privateRoomAllLocked eng opts rm =
     (case rm of
        None \<Rightarrow> False
      | Some r \<Rightarrow>
          \<not> roomIsPublic eng opts rm
          \<and> (case roomDoorIndex eng (rm_geometryId r) of
                None \<Rightarrow> False
              | Some doors \<Rightarrow> doors \<noteq> [] \<and> list_all (\<lambda>door. md_isLocked (n_metadata door)) doors))"

section \<open>CollisionDetector: the relaxed check\<close>

lemma segmentMeters_horizontal: "segmentMeters (x, y) (x', y) = \<bar>x' - x\<bar> * 111320"
  by (simp add: segmentMeters_def)

lemmas demo_scene =
  demoEngine_def demoGraph_def demoDetector_def demoTurf_def roomR1_def nodeN1_def nodeN2_def
  nodeN3_def nodeN4_def nodeN5_def doorD1_def walkableEdge_def roomNode_def corridorNode_def
  plainMetadata_def defaultOptions_def taxicabMeters_def

lemmas detector_defs =
  isPathClear_def pointInObstacle_def lineIntersectsObstacle_def lineBbox_def isIntersectionAtDoor_def

text \<open>The length in meters of a segment along a parallel, as the edge builder computes it,
  and the measure of the relaxed check against it.\<close>

lemma calculateDistance_parallel:
  "calculateDistance (x, y) (x', y) = \<bar>x' - x\<bar> * \<bar>cos (y * (pi / 180))\<bar> * 111320"
proof -
  have mid: "(y + y) / 2 = y" by simp
  have "calculateDistance (x, y) (x', y)
          = sqrt (((x' - x) * (cos (y * (pi / 180)) * 111320)) * ((x' - x) * (cos (y * (pi / 180)) * 111320)))"
    by (simp only: calculateDistance_def Let_def fst_conv snd_conv mid diff_self mult_zero_left add_0_right)
  also have "\<dots> = \<bar>(x' - x) * (cos (y * (pi / 180)) * 111320)\<bar>"
    by (rule real_sqrt_abs2)
  also have "\<dots> = \<bar>x' - x\<bar> * \<bar>cos (y * (pi / 180))\<bar> * 111320"
    by (simp add: abs_mult)
  finally show ?thesis .
qed


text \<open>On the equator the two agree for a segment along it.\<close>

lemma calculateDistance_equator:
  "calculateDistance (x, 0) (x', 0) = segmentMeters (x, 0) (x', 0)"
  by (simp add: calculateDistance_parallel segmentMeters_horizontal)








section \<open>AStar: the room rule of the two searches\<close>

text \<open>The rule as \<open>findPath\<close> has it: connection nodes always pass, the other nodes pass
  when they have no room or one of their rooms is allowed.\<close>

lemma isRoomAllowed_rule:
  assumes "allowed \<noteq> []"
  shows "isRoomAllowed True (Some allowed) nd =
           (md_isElevator (n_metadata nd) \<or> md_isStairs (n_metadata nd) \<or> md_isDoor (n_metadata nd)
            \<or> roomIdsOf nd = [] \<or> set (roomIdsOf nd) \<inter> set allowed \<noteq> {})"
  using assms by (auto simp: isRoomAllowed_def list_ex_iff)

text \<open>In \<open>findPathBidirectional\<close> the connection nodes are not exempt.\<close>

lemma isRoomAllowedBidirectional_rule:
  assumes "allowed \<noteq> []"
  shows "isRoomAllowedBidirectional True (Some allowed) nd =
           (roomIdsOf nd = [] \<or> set (roomIdsOf nd) \<inter> set allowed \<noteq> {})"
  using assms by (auto simp: isRoomAllowedBidirectional_def list_ex_iff)

text \<open>
  Claim C4. The claim wants door, stairs and elevator nodes traversable in both searches
  when \<open>disallowOtherRooms\<close> is set with a non-empty \<open>allowedRoomIds\<close>. The door
  \<open>door_D1\<close> belongs to room \<open>R1\<close> only; with \<open>allowedRoomIds = [R2]\<close> the rule of
  \<open>findPath\<close> lets it pass and the rule of \<open>findPathBidirectional\<close> rejects it.
\<close>

theorem isRoomAllowed_differs_on_door:
  "md_isDoor (n_metadata doorD1)
   \<and> isRoomAllowed True (Some [''R2'']) doorD1
   \<and> \<not> isRoomAllowedBidirectional True (Some [''R2'']) doorD1"
  by (simp add: isRoomAllowed_def isRoomAllowedBidirectional_def roomIdsOf_def doorD1_def)

section \<open>PathCache: the key\<close>

text \<open>The key depends on the query only through the rounded coordinates, the floors and
  four values derived from the options.\<close>

lemma generateKey_cong:
  assumes "roundCoord (fst s) = roundCoord (fst s')" "roundCoord (snd s) = roundCoord (snd s')"
      and "roundCoord (fst e) = roundCoord (fst e')" "roundCoord (snd e) = roundCoord (snd e')"
      and "o_accessibleOnly opts = o_accessibleOnly opts'"
      and "o_roomTraversalMode opts = o_roomTraversalMode opts'"
      and "o_disallowOtherRooms opts = o_disallowOtherRooms opts'"
      and "o_publicRoomDoorCount opts = o_publicRoomDoorCount opts'"
      and "o_publicRoomArea opts = o_publicRoomArea opts'"
  shows "generateKey s e sf ef opts = generateKey s' e' sf ef opts'"
  using assms by (simp add: generateKey_def)

lemma cacheGet_same_key:
  assumes "generateKey s e sf ef opts = generateKey s' e' sf' ef' opts'"
  shows "cacheGet pc s e sf ef opts = cacheGet pc s' e' sf' ef' opts'"
  using assms by (simp add: cacheGet_def)

text \<open>
  Claim C8. The source comment and the claim give the rounding a precision of about one
  meter; \<open>roundCoord\<close> keeps four decimals of a degree, which is about 11 meters. Two start
  points 3.3 m apart (1e-5 and 4e-5 degrees of longitude at the same latitude) give the same
  key, whatever the rest of the query is.
\<close>

theorem generateKey_merges_distant_points:
  "3 < segmentMeters (1 / 10 ^ 5, 0) (4 / 10 ^ 5, 0)
   \<and> generateKey (1 / 10 ^ 5, 0) e sf ef opts = generateKey (4 / 10 ^ 5, 0) e sf ef opts"
  by (simp add: segmentMeters_horizontal generateKey_def roundCoord_def)

section \<open>EdgeBuilder: the edges of a floor\<close>

text \<open>One step of the selection loop continues with a list whose candidates are old ones
  or the candidate just seen.\<close>

lemma selectLoop_step:
  "\<exists>best' wi' wd'.
     selectLoop nodeA k best wi wd (c # cands) = selectLoop nodeA k best' wi' wd' cands
     \<and> fst ` set best' \<subseteq> insert c (fst ` set best)"
proof -
  define d where "d = (fst (n_coords c) - fst (n_coords nodeA)) * (fst (n_coords c) - fst (n_coords nodeA))
                     + (snd (n_coords c) - snd (n_coords nodeA)) * (snd (n_coords c) - snd (n_coords nodeA))"
  obtain wi2 wd2 where ws: "worstScan (best[nat wi := (c, d)]) 0 (-1, None) = (wi2, wd2)"
    by (cases "worstScan (best[nat wi := (c, d)]) 0 (-1, None)") auto
  have upd: "fst ` set (best[nat wi := (c, d)]) \<subseteq> insert c (fst ` set best)"
    using set_update_subset_insert [of best "nat wi" "(c, d)"] by auto
  have app: "fst ` set (best @ [(c, d)]) \<subseteq> insert c (fst ` set best)"
    by auto
  have same: "fst ` set best \<subseteq> insert c (fst ` set best)"
    by auto
  consider (self) "n_id c = n_id nodeA"
    | (room1) "n_id c \<noteq> n_id nodeA" "real (length best) < k" "aboveWorst d wd"
    | (room2) "n_id c \<noteq> n_id nodeA" "real (length best) < k" "\<not> aboveWorst d wd"
    | (skip) "n_id c \<noteq> n_id nodeA" "\<not> real (length best) < k" "atLeastWorst d wd"
    | (replace) "n_id c \<noteq> n_id nodeA" "\<not> real (length best) < k" "\<not> atLeastWorst d wd"
    by blast
  then show ?thesis
  proof cases
    case self
    then have "selectLoop nodeA k best wi wd (c # cands) = selectLoop nodeA k best wi wd cands"
      by simp
    with same show ?thesis by blast
  next
    case room1
    then have "selectLoop nodeA k best wi wd (c # cands)
                 = selectLoop nodeA k (best @ [(c, d)]) (int (length best)) (Some d) cands"
      by (simp add: Let_def d_def)
    with app show ?thesis by blast
  next
    case room2
    then have "selectLoop nodeA k best wi wd (c # cands) = selectLoop nodeA k (best @ [(c, d)]) wi wd cands"
      by (simp add: Let_def d_def)
    with app show ?thesis by blast
  next
    case skip
    then have "selectLoop nodeA k best wi wd (c # cands) = selectLoop nodeA k best wi wd cands"
      by (simp add: Let_def d_def)
    with same show ?thesis by blast
  next
    case replace
    then have "selectLoop nodeA k best wi wd (c # cands)
                 = selectLoop nodeA k (best[nat wi := (c, d)]) wi2 wd2 cands"
      using ws by (simp add: Let_def d_def)
    with upd show ?thesis by blast
  qed
qed

lemma selectLoop_subset:
  "fst ` set (selectLoop nodeA k best wi wd cands) \<subseteq> fst ` set best \<union> set cands"
proof (induction cands arbitrary: best wi wd)
  case Nil
  then show ?case by simp
next
  case (Cons c cands)
  obtain best' wi' wd' where
    step: "selectLoop nodeA k best wi wd (c # cands) = selectLoop nodeA k best' wi' wd' cands"
    and sub: "fst ` set best' \<subseteq> insert c (fst ` set best)"
    using selectLoop_step [of nodeA k best wi wd c cands] by blast
  have ih: "fst ` set (selectLoop nodeA k best' wi' wd' cands) \<subseteq> fst ` set best' \<union> set cands"
    by (rule Cons.IH)
  from sub ih have "fst ` set (selectLoop nodeA k best' wi' wd' cands) \<subseteq> fst ` set best \<union> insert c (set cands)"
    by blast
  with step show ?case by simp
qed

lemma selectNearestCandidates_subset:
  "set (selectNearestCandidates nodeA cands k) \<subseteq> set cands"
  using selectLoop_subset [of nodeA k "[]" "-1" None cands]
  by (simp add: selectNearestCandidates_def)

lemma candidatesOf_floor:
  assumes nodes: "\<forall>n \<in> set nodes. n_floorId n = floorId"
      and index: "\<forall>si query range. spatial = Some si \<longrightarrow> quadTree si = Some query
                    \<longrightarrow> (\<forall>n \<in> set (query range). n_floorId n = floorId)"
      and "nodeB \<in> set (candidatesOf nodes maxDistance spatial neighborLimit nodeA)"
  shows "n_floorId nodeB = floorId"
proof -
  let ?box = "(fst (n_coords nodeA) - maxDistance / 111320, snd (n_coords nodeA) - maxDistance / 111320,
               fst (n_coords nodeA) + maxDistance / 111320, snd (n_coords nodeA) + maxDistance / 111320)"
  let ?pool = "(case (case spatial of None \<Rightarrow> None | Some si \<Rightarrow> quadTree si) of
                  Some query \<Rightarrow> query ?box
                | None \<Rightarrow> filter (\<lambda>n. \<bar>fst (n_coords n) - fst (n_coords nodeA)\<bar> \<le> maxDistance / 111320
                              \<and> \<bar>snd (n_coords n) - snd (n_coords nodeA)\<bar> \<le> maxDistance / 111320) nodes)"
  have pool: "\<forall>n \<in> set ?pool. n_floorId n = floorId"
    using nodes index by (auto split: option.splits)
  have "set (candidatesOf nodes maxDistance spatial neighborLimit nodeA) \<subseteq> set ?pool"
    using selectNearestCandidates_subset [of nodeA ?pool]
    by (auto simp: candidatesOf_def Let_def)
  with pool assms(3) show ?thesis by blast
qed


lemma edgeMeters_le:
  assumes "((fst (n_coords nodeB) - fst (n_coords nodeA)) * (cos (snd (n_coords nodeA) * (pi / 180)) * 111320))
             * ((fst (n_coords nodeB) - fst (n_coords nodeA)) * (cos (snd (n_coords nodeA) * (pi / 180)) * 111320))
           + ((snd (n_coords nodeB) - snd (n_coords nodeA)) * 111320)
             * ((snd (n_coords nodeB) - snd (n_coords nodeA)) * 111320) \<le> maxDistance * maxDistance"
  shows "edgeMeters nodeA nodeB \<le> \<bar>maxDistance\<bar>"
proof -
  have "edgeMeters nodeA nodeB \<le> sqrt (maxDistance * maxDistance)"
    unfolding edgeMeters_def using assms by (rule real_sqrt_le_mono)
  then show ?thesis by simp
qed

lemma neighbourLoop_step:
  "neighbourLoop los floorId maxDistance nlim nodeA added (nodeB # rest) =
     neighbourLoop los floorId maxDistance nlim nodeA added rest
   \<or> (n_id nodeA < n_id nodeB \<and> edgeMeters nodeA nodeB \<le> \<bar>maxDistance\<bar>
       \<and> los (n_coords nodeA) (n_coords nodeB) floorId
       \<and> (neighbourLoop los floorId maxDistance nlim nodeA added (nodeB # rest) =
             [forwardEdge nodeA nodeB, backwardEdge nodeA nodeB]
           \<or> neighbourLoop los floorId maxDistance nlim nodeA added (nodeB # rest) =
               forwardEdge nodeA nodeB # backwardEdge nodeA nodeB
                 # neighbourLoop los floorId maxDistance nlim nodeA (added + 1) rest))"
proof -
  let ?sq = "((fst (n_coords nodeB) - fst (n_coords nodeA)) * (cos (snd (n_coords nodeA) * (pi / 180)) * 111320))
             * ((fst (n_coords nodeB) - fst (n_coords nodeA)) * (cos (snd (n_coords nodeA) * (pi / 180)) * 111320))
           + ((snd (n_coords nodeB) - snd (n_coords nodeA)) * 111320)
             * ((snd (n_coords nodeB) - snd (n_coords nodeA)) * 111320)"
  show ?thesis
  proof (cases "n_id nodeB \<le> n_id nodeA \<or> ?sq > maxDistance * maxDistance
                \<or> \<not> los (n_coords nodeA) (n_coords nodeB) floorId")
    case True
    then show ?thesis by (auto simp: Let_def)
  next
    case False
    then have far: "?sq \<le> maxDistance * maxDistance" and ord: "n_id nodeA < n_id nodeB"
      and sight: "los (n_coords nodeA) (n_coords nodeB) floorId"
      by auto
    from far have "edgeMeters nodeA nodeB \<le> \<bar>maxDistance\<bar>" by (rule edgeMeters_le)
    moreover have "neighbourLoop los floorId maxDistance nlim nodeA added (nodeB # rest) =
             [forwardEdge nodeA nodeB, backwardEdge nodeA nodeB]
           \<or> neighbourLoop los floorId maxDistance nlim nodeA added (nodeB # rest) =
               forwardEdge nodeA nodeB # backwardEdge nodeA nodeB
                 # neighbourLoop los floorId maxDistance nlim nodeA (added + 1) rest"
      using False by (simp add: Let_def forwardEdge_def backwardEdge_def edgeMeters_def)
    ultimately show ?thesis using ord sight by blast
  qed
qed

lemma neighbourLoop_edges:
  assumes "e \<in> set (neighbourLoop los floorId maxDistance nlim nodeA added cands)"
  shows "\<exists>nodeB \<in> set cands.
           n_id nodeA < n_id nodeB \<and> edgeMeters nodeA nodeB \<le> \<bar>maxDistance\<bar>
           \<and> los (n_coords nodeA) (n_coords nodeB) floorId
           \<and> (e = forwardEdge nodeA nodeB \<or> e = backwardEdge nodeA nodeB)
           \<and> forwardEdge nodeA nodeB \<in> set (neighbourLoop los floorId maxDistance nlim nodeA added cands)
           \<and> backwardEdge nodeA nodeB \<in> set (neighbourLoop los floorId maxDistance nlim nodeA added cands)"
  using assms
proof (induction cands arbitrary: added)
  case Nil
  then show ?case by simp
next
  case (Cons nodeB rest)
  let ?out = "neighbourLoop los floorId maxDistance nlim nodeA added (nodeB # rest)"
  from neighbourLoop_step [of los floorId maxDistance nlim nodeA added nodeB rest]
  consider (skipped) "?out = neighbourLoop los floorId maxDistance nlim nodeA added rest"
    | (final) "n_id nodeA < n_id nodeB" "edgeMeters nodeA nodeB \<le> \<bar>maxDistance\<bar>"
        "los (n_coords nodeA) (n_coords nodeB) floorId"
        "?out = [forwardEdge nodeA nodeB, backwardEdge nodeA nodeB]"
    | (more) "n_id nodeA < n_id nodeB" "edgeMeters nodeA nodeB \<le> \<bar>maxDistance\<bar>"
        "los (n_coords nodeA) (n_coords nodeB) floorId"
        "?out = forwardEdge nodeA nodeB # backwardEdge nodeA nodeB
                  # neighbourLoop los floorId maxDistance nlim nodeA (added + 1) rest"
    by blast
  then show ?case
  proof cases
    case skipped
    with Cons.prems have "e \<in> set (neighbourLoop los floorId maxDistance nlim nodeA added rest)"
      by simp
    from Cons.IH [OF this] skipped show ?thesis by auto
  next
    case final
    with Cons.prems have "e = forwardEdge nodeA nodeB \<or> e = backwardEdge nodeA nodeB"
      by auto
    with final show ?thesis by auto
  next
    case more
    show ?thesis
    proof (cases "e = forwardEdge nodeA nodeB \<or> e = backwardEdge nodeA nodeB")
      case True
      with more show ?thesis by auto
    next
      case False
      with more Cons.prems
      have "e \<in> set (neighbourLoop los floorId maxDistance nlim nodeA (added + 1) rest)"
        by auto
      from Cons.IH [OF this] more(4) show ?thesis by auto
    qed
  qed
qed

lemma nodeLoop_edges:
  assumes "e \<in> set (nodeLoop los nodes floorId maxDistance spatial nlim todo)"
  shows "\<exists>nodeA \<in> set todo. \<exists>nodeB \<in> set (candidatesOf nodes maxDistance spatial nlim nodeA).
           n_id nodeA < n_id nodeB \<and> edgeMeters nodeA nodeB \<le> \<bar>maxDistance\<bar>
           \<and> los (n_coords nodeA) (n_coords nodeB) floorId
           \<and> (e = forwardEdge nodeA nodeB \<or> e = backwardEdge nodeA nodeB)
           \<and> forwardEdge nodeA nodeB \<in> set (nodeLoop los nodes floorId maxDistance spatial nlim todo)
           \<and> backwardEdge nodeA nodeB \<in> set (nodeLoop los nodes floorId maxDistance spatial nlim todo)"
  using assms
proof (induction todo)
  case Nil
  then show ?case by simp
next
  case (Cons nodeA rest)
  let ?here = "neighbourLoop los floorId maxDistance nlim nodeA 0 (candidatesOf nodes maxDistance spatial nlim nodeA)"
  from Cons.prems consider (here) "e \<in> set ?here"
    | (later) "e \<in> set (nodeLoop los nodes floorId maxDistance spatial nlim rest)"
    by auto
  then show ?case
  proof cases
    case here
    from neighbourLoop_edges [OF this] show ?thesis by auto
  next
    case later
    from Cons.IH [OF this] show ?thesis by auto
  qed
qed

text \<open>
  Claim C1. For a non-negative \<open>maxDistance\<close>, and nodes and spatial index of one floor:
  every edge that \<open>buildEdgesForFloor\<close> returns belongs to a pair of a node A and one of
  its candidates B with \<open>id(A) < id(B)\<close>, at most \<open>maxDistance\<close> meters apart (the
  distance as the builder measures it), with \<open>isPathClear\<close> between them and both on the
  floor; the edge is the edge from A to B or the edge from B to A, both are returned, and
  both have that distance as weight and the type \<open>walkable\<close>.
\<close>

theorem buildEdgesForFloor_edges:
  assumes "0 \<le> maxDistance"
      and "\<forall>n \<in> set nodes. n_floorId n = floorId"
      and "\<forall>si query range. spatial = Some si \<longrightarrow> quadTree si = Some query
             \<longrightarrow> (\<forall>n \<in> set (query range). n_floorId n = floorId)"
      and "e \<in> set (buildEdgesForFloor (hasLineOfSight T cd) nodes floorId maxDistance spatial maxNeighbors)"
  shows "\<exists>nodeA nodeB.
           nodeA \<in> set nodes
           \<and> nodeB \<in> set (candidatesOf nodes maxDistance spatial maxNeighbors nodeA)
           \<and> n_id nodeA < n_id nodeB
           \<and> edgeMeters nodeA nodeB \<le> maxDistance
           \<and> isPathClear T cd (n_coords nodeA) (n_coords nodeB) floorId
           \<and> n_floorId nodeA = floorId \<and> n_floorId nodeB = floorId
           \<and> (e = forwardEdge nodeA nodeB \<or> e = backwardEdge nodeA nodeB)
           \<and> forwardEdge nodeA nodeB
                \<in> set (buildEdgesForFloor (hasLineOfSight T cd) nodes floorId maxDistance spatial maxNeighbors)
           \<and> backwardEdge nodeA nodeB
                \<in> set (buildEdgesForFloor (hasLineOfSight T cd) nodes floorId maxDistance spatial maxNeighbors)
           \<and> be_weight (forwardEdge nodeA nodeB) = edgeMeters nodeA nodeB
           \<and> be_weight (backwardEdge nodeA nodeB) = edgeMeters nodeA nodeB
           \<and> be_type (forwardEdge nodeA nodeB) = ''walkable''
           \<and> be_type (backwardEdge nodeA nodeB) = ''walkable''"
proof -
  from assms(4) obtain nodeA nodeB where
    a: "nodeA \<in> set nodes"
    and b: "nodeB \<in> set (candidatesOf nodes maxDistance spatial maxNeighbors nodeA)"
    and rest: "n_id nodeA < n_id nodeB" "edgeMeters nodeA nodeB \<le> \<bar>maxDistance\<bar>"
      "hasLineOfSight T cd (n_coords nodeA) (n_coords nodeB) floorId"
      "e = forwardEdge nodeA nodeB \<or> e = backwardEdge nodeA nodeB"
      "forwardEdge nodeA nodeB \<in> set (buildEdgesForFloor (hasLineOfSight T cd) nodes floorId maxDistance spatial maxNeighbors)"
      "backwardEdge nodeA nodeB \<in> set (buildEdgesForFloor (hasLineOfSight T cd) nodes floorId maxDistance spatial maxNeighbors)"
    unfolding buildEdgesForFloor_def using nodeLoop_edges by blast
  from assms(2) a have fa: "n_floorId nodeA = floorId" by blast
  from candidatesOf_floor [OF assms(2) assms(3) b] have fb: "n_floorId nodeB = floorId" .
  from rest(2) assms(1) have "edgeMeters nodeA nodeB \<le> maxDistance" by simp
  with a b rest fa fb show ?thesis
    by (auto simp: hasLineOfSight_def forwardEdge_def backwardEdge_def)
qed


text \<open>In the small building, the nodes \<open>P1\<close> and \<open>P2\<close> are 5 m apart and see each
  other.\<close>

theorem buildEdgesForFloor_edges_witness:
  "(0::real) \<le> 15
   \<and> n_floorId nodeP1 = ''F0'' \<and> n_floorId nodeP2 = ''F0''
   \<and> forwardEdge nodeP1 nodeP2
        \<in> set (buildEdgesForFloor (hasLineOfSight demoTurf demoDetector) [nodeP1, nodeP2] ''F0'' 15 None (Some 8))
   \<and> (\<exists>nodeA nodeB.
           nodeA \<in> set [nodeP1, nodeP2]
           \<and> n_id nodeA < n_id nodeB
           \<and> edgeMeters nodeA nodeB \<le> 15
           \<and> isPathClear demoTurf demoDetector (n_coords nodeA) (n_coords nodeB) ''F0''
           \<and> n_floorId nodeA = ''F0'' \<and> n_floorId nodeB = ''F0''
           \<and> (forwardEdge nodeP1 nodeP2 = forwardEdge nodeA nodeB \<or> forwardEdge nodeP1 nodeP2 = backwardEdge nodeA nodeB)
           \<and> backwardEdge nodeA nodeB
                \<in> set (buildEdgesForFloor (hasLineOfSight demoTurf demoDetector) [nodeP1, nodeP2] ''F0'' 15 None (Some 8)))"
proof -
  have h1: "(0::real) \<le> 15" by simp
  have h2: "\<forall>n \<in> set [nodeP1, nodeP2]. n_floorId n = ''F0''"
    by (simp add: nodeP1_def nodeP2_def roomNode_def)
  have h3: "\<forall>si query range. (None :: spatialIndex option) = Some si \<longrightarrow> quadTree si = Some query
             \<longrightarrow> (\<forall>n \<in> set (query range). n_floorId n = ''F0'')"
    by simp
  have clear: "isPathClear demoTurf demoDetector (0, 0) (3 / 111320, 4 / 111320) ''F0''"
    by (simp add: detector_defs demo_scene)
  have h4: "forwardEdge nodeP1 nodeP2
        \<in> set (buildEdgesForFloor (hasLineOfSight demoTurf demoDetector) [nodeP1, nodeP2] ''F0'' 15 None (Some 8))"
    using clear
    by (simp add: buildEdgesForFloor_def candidatesOf_def hasLineOfSight_def forwardEdge_def edgeMeters_def
          nodeP1_def nodeP2_def roomNode_def Let_def)
  have floors: "n_floorId nodeP1 = ''F0''" "n_floorId nodeP2 = ''F0''"
    by (simp_all add: nodeP1_def nodeP2_def roomNode_def)
  from buildEdgesForFloor_edges [OF h1 h2 h3 h4] h1 floors h4 show ?thesis
    by blast
qed


section \<open>AStar: closed nodes\<close>

text \<open>Pushing onto the heap adds the item and keeps the others.\<close>

lemma set_swap_heap: "i < length h \<Longrightarrow> j < length h \<Longrightarrow> set (swap h i j) = set h"
  by (simp add: swap_def set_swap)

lemma length_swap_heap: "length (swap h i j) = length h"
  by (simp add: swap_def)

lemma set_bubbleUp: "index < length h \<Longrightarrow> set (bubbleUp h index) = set h"
proof (induction h index rule: bubbleUp.induct)
  case (1 h index)
  show ?case
  proof (cases "index > 0 \<and> \<not> q_priority (h ! index) \<ge> q_priority (h ! ((index - 1) div 2))")
    case True
    then have parent: "(index - 1) div 2 < length h" using "1.prems" by auto
    from True have "bubbleUp h index = bubbleUp (swap h index ((index - 1) div 2)) ((index - 1) div 2)"
      by (subst bubbleUp.simps) simp
    moreover have "set (bubbleUp (swap h index ((index - 1) div 2)) ((index - 1) div 2))
                     = set (swap h index ((index - 1) div 2))"
      using True parent by (intro "1.IH") (auto simp: length_swap_heap)
    ultimately show ?thesis using "1.prems" parent by (simp add: set_swap_heap)
  next
    case False
    then show ?thesis by (subst bubbleUp.simps) auto
  qed
qed

lemma set_push: "set (push h item) = insert item (set h)"
  by (simp add: push_def set_bubbleUp)

lemmas astar_defs =
  findPath_def searchLoop.simps heuristic_def push_def pop_def bubbleUp.simps bubbleDown.simps
  smallestOf_def swap_def relaxEdge_def isNodeAllowed_def isRoomAllowed_def roomIdsOf_def
  reconstructPath_def walkBack.simps

lemmas detour_scene =
  detourGraph_def detourNode_def detourStateAtB_def detourStateOpenA_def walkableEdge_def plainMetadata_def
  defaultOptions_def demoTurf_def taxicabMeters_def

text \<open>
  Claim C3, as the claim states it, fails. In the search from \<open>S\<close> to \<open>G\<close> over the second
  graph, \<open>A\<close> is popped before \<open>B\<close> (the heuristic adds 10 for the other floor). When the
  edge from \<open>B\<close> to \<open>A\<close> is examined, \<open>A\<close> is in the closed set with score 10 and the
  tentative score is 1 + 1: the state is left as it is, the score is not updated and
  nothing is pushed. The search returns the path over the direct edge, of length 15.
\<close>

theorem relaxEdge_closed_counterexample:
  "e_target (walkableEdge ''A'' 1) \<in> closedSet detourStateAtB
   \<and> gScore detourStateAtB ''B'' = Some 1
   \<and> gScore detourStateAtB ''A'' = Some 10
   \<and> relaxEdge demoTurf detourGraph defaultOptions (detourNode ''G'' ''F0'') ''B'' detourStateAtB (walkableEdge ''A'' 1)
       = Some detourStateAtB
   \<and> map_option (map_option (\<lambda>p. (ap_nodeIds p, ap_distance p)))
        (findPath demoTurf detourGraph ''S'' ''G'' defaultOptions)
       = Some (Some ([''S'', ''A'', ''G''], Some 15))"
  by (simp add: astar_defs detour_scene Let_def)


text \<open>
  Claim C3, amended. A neighbour that is in the closed set is skipped: the edge leaves the
  state unchanged. A neighbour that is not in the closed set, passes the filters and is
  reached with a smaller tentative score than its stored one gets the new score and the new
  predecessor, and an entry with the new priority is pushed while the old entries stay in
  the heap. A popped entry whose node is already in the closed set (and is not the goal) is
  dropped, the search going on with the rest of the heap.
\<close>

theorem relaxEdge_closed_skipped_open_updated:
  "(e_target e \<in> closedSet st \<longrightarrow> relaxEdge T g opts endNode currentId st e = Some st)
   \<and> (e_target e \<notin> closedSet st
        \<and> \<not> (o_accessibleOnly opts \<and> \<not> e_accessible e)
        \<and> \<not> (o_avoidStairs opts \<and> e_type e = ''stairs'')
        \<and> getNode g (e_target e) = Some neighborNode \<and> isNodeAllowed opts neighborNode
        \<and> e_weight e = Some w \<and> gScore st currentId = Some gCurrent
        \<and> gScore st (e_target e) = Some gOld \<and> gCurrent + w < gOld
      \<longrightarrow> (\<exists>st'. relaxEdge T g opts endNode currentId st e = Some st'
              \<and> gScore st' (e_target e) = Some (gCurrent + w)
              \<and> cameFrom st' (e_target e) = Some currentId
              \<and> \<lparr>q_nodeId = e_target e,
                  q_priority = gCurrent + w + heuristic T neighborNode endNode
                                 * (case o_heuristicWeight opts of None \<Rightarrow> 1 | Some hw \<Rightarrow> hw)\<rparr>
                  \<in> set (openSet st')
              \<and> set (openSet st) \<subseteq> set (openSet st')
              \<and> closedSet st' = closedSet st))
   \<and> (pop (openSet st) = (Some current, rest) \<and> q_nodeId current \<noteq> endNodeId
        \<and> q_nodeId current \<in> closedSet st
      \<longrightarrow> searchLoop T g opts endNode endNodeId st
            = searchLoop T g opts endNode endNodeId (st\<lparr>openSet := rest\<rparr>))"
proof (intro conjI impI)
  assume "e_target e \<in> closedSet st"
  then show "relaxEdge T g opts endNode currentId st e = Some st"
    by (simp add: relaxEdge_def)
next
  assume a: "e_target e \<notin> closedSet st
        \<and> \<not> (o_accessibleOnly opts \<and> \<not> e_accessible e)
        \<and> \<not> (o_avoidStairs opts \<and> e_type e = ''stairs'')
        \<and> getNode g (e_target e) = Some neighborNode \<and> isNodeAllowed opts neighborNode
        \<and> e_weight e = Some w \<and> gScore st currentId = Some gCurrent
        \<and> gScore st (e_target e) = Some gOld \<and> gCurrent + w < gOld"
  then show "\<exists>st'. relaxEdge T g opts endNode currentId st e = Some st'
              \<and> gScore st' (e_target e) = Some (gCurrent + w)
              \<and> cameFrom st' (e_target e) = Some currentId
              \<and> \<lparr>q_nodeId = e_target e,
                  q_priority = gCurrent + w + heuristic T neighborNode endNode
                                 * (case o_heuristicWeight opts of None \<Rightarrow> 1 | Some hw \<Rightarrow> hw)\<rparr>
                  \<in> set (openSet st')
              \<and> set (openSet st) \<subseteq> set (openSet st')
              \<and> closedSet st' = closedSet st"
    by (auto simp: relaxEdge_def Let_def set_push)
next
  assume "pop (openSet st) = (Some current, rest) \<and> q_nodeId current \<noteq> endNodeId
        \<and> q_nodeId current \<in> closedSet st"
  then show "searchLoop T g opts endNode endNodeId st
            = searchLoop T g opts endNode endNodeId (st\<lparr>openSet := rest\<rparr>)"
    by (subst searchLoop.simps) simp
qed

text \<open>In the second graph: the edge from \<open>B\<close> to \<open>A\<close> with \<open>A\<close> closed, the same edge
  with \<open>A\<close> still open, and a heap whose first entry is a stale entry of the closed \<open>A\<close>.\<close>

theorem relaxEdge_closed_skipped_open_updated_witness:
  "e_target (walkableEdge ''A'' 1) \<in> closedSet detourStateAtB
   \<and> relaxEdge demoTurf detourGraph defaultOptions (detourNode ''G'' ''F0'') ''B'' detourStateAtB
        (walkableEdge ''A'' 1) = Some detourStateAtB
   \<and> e_target (walkableEdge ''A'' 1) \<notin> closedSet detourStateOpenA
   \<and> gScore detourStateOpenA ''B'' = Some 1 \<and> gScore detourStateOpenA ''A'' = Some 10
   \<and> (\<exists>st'. relaxEdge demoTurf detourGraph defaultOptions (detourNode ''G'' ''F0'') ''B'' detourStateOpenA
                (walkableEdge ''A'' 1) = Some st'
             \<and> gScore st' ''A'' = Some 2 \<and> cameFrom st' ''A'' = Some ''B''
             \<and> \<lparr>q_nodeId = ''A'', q_priority = 2\<rparr> \<in> set (openSet st')
             \<and> closedSet st' = closedSet detourStateOpenA)
   \<and> pop [\<lparr>q_nodeId = ''A'', q_priority = 10\<rparr>, \<lparr>q_nodeId = ''G'', q_priority = 15\<rparr>]
       = (Some \<lparr>q_nodeId = ''A'', q_priority = 10\<rparr>, [\<lparr>q_nodeId = ''G'', q_priority = 15\<rparr>])
   \<and> searchLoop demoTurf detourGraph defaultOptions (detourNode ''G'' ''F0'') ''G''
        (detourStateAtB\<lparr>openSet := [\<lparr>q_nodeId = ''A'', q_priority = 10\<rparr>, \<lparr>q_nodeId = ''G'', q_priority = 15\<rparr>]\<rparr>)
       = searchLoop demoTurf detourGraph defaultOptions (detourNode ''G'' ''F0'') ''G''
           (detourStateAtB\<lparr>openSet := [\<lparr>q_nodeId = ''G'', q_priority = 15\<rparr>]\<rparr>)"
proof -
  let ?e = "walkableEdge ''A'' 1"
  let ?G = "detourNode ''G'' ''F0''"
  let ?A = "detourNode ''A'' ''F0''"
  let ?stale = "detourStateAtB\<lparr>openSet := [\<lparr>q_nodeId = ''A'', q_priority = 10\<rparr>, \<lparr>q_nodeId = ''G'', q_priority = 15\<rparr>]\<rparr>"
  have closed: "e_target ?e \<in> closedSet detourStateAtB"
    by (simp add: detour_scene)
  have opened: "e_target ?e \<notin> closedSet detourStateOpenA
        \<and> \<not> (o_accessibleOnly defaultOptions \<and> \<not> e_accessible ?e)
        \<and> \<not> (o_avoidStairs defaultOptions \<and> e_type ?e = ''stairs'')
        \<and> getNode detourGraph (e_target ?e) = Some ?A \<and> isNodeAllowed defaultOptions ?A
        \<and> e_weight ?e = Some 1 \<and> gScore detourStateOpenA ''B'' = Some 1
        \<and> gScore detourStateOpenA (e_target ?e) = Some 10 \<and> (1::real) + 1 < 10"
    by (simp add: detour_scene isNodeAllowed_def isRoomAllowed_def)
  have popped: "pop (openSet ?stale) = (Some \<lparr>q_nodeId = ''A'', q_priority = 10\<rparr>, [\<lparr>q_nodeId = ''G'', q_priority = 15\<rparr>])
        \<and> q_nodeId \<lparr>q_nodeId = ''A'', q_priority = 10\<rparr> \<noteq> ''G''
        \<and> q_nodeId \<lparr>q_nodeId = ''A'', q_priority = 10\<rparr> \<in> closedSet ?stale"
    by (simp add: detour_scene pop_def bubbleDown.simps smallestOf_def)
  have target: "e_target ?e = ''A''" by (simp add: walkableEdge_def)
  have h0: "heuristic demoTurf ?A ?G * (case o_heuristicWeight defaultOptions of None \<Rightarrow> 1 | Some hw \<Rightarrow> hw) = 0"
    by (simp add: heuristic_def detour_scene)
  note thm1 = relaxEdge_closed_skipped_open_updated
    [where e = ?e and st = detourStateAtB and T = demoTurf and g = detourGraph
       and opts = defaultOptions and endNode = ?G and currentId = "''B''",
     THEN conjunct1, rule_format, OF closed]
  note thm2 = relaxEdge_closed_skipped_open_updated
    [where e = ?e and st = detourStateOpenA and opts = defaultOptions and g = detourGraph
       and neighborNode = ?A and w = 1 and currentId = "''B''" and gCurrent = 1 and gOld = 10
       and T = demoTurf and endNode = ?G,
     THEN conjunct2, THEN conjunct1, rule_format, OF opened]
  note thm3 = relaxEdge_closed_skipped_open_updated
    [where st = ?stale and endNodeId = "''G''" and T = demoTurf and g = detourGraph
       and opts = defaultOptions and endNode = ?G,
     THEN conjunct2, THEN conjunct2, rule_format, OF popped]
  from thm2 have c2: "\<exists>st'. relaxEdge demoTurf detourGraph defaultOptions ?G ''B'' detourStateOpenA ?e = Some st'
             \<and> gScore st' ''A'' = Some 2 \<and> cameFrom st' ''A'' = Some ''B''
             \<and> \<lparr>q_nodeId = ''A'', q_priority = 2\<rparr> \<in> set (openSet st')
             \<and> closedSet st' = closedSet detourStateOpenA"
    unfolding h0 target by auto
  from thm3 have c3: "searchLoop demoTurf detourGraph defaultOptions ?G ''G'' ?stale
       = searchLoop demoTurf detourGraph defaultOptions ?G ''G''
           (detourStateAtB\<lparr>openSet := [\<lparr>q_nodeId = ''G'', q_priority = 15\<rparr>]\<rparr>)"
    by simp
  from closed thm1 opened c2 popped c3 show ?thesis
    by (simp add: target)
qed


section \<open>PathfindingEngine: queries\<close>

lemmas engine_defs =
  findRoute_def findRouteFresh_def findRouteSearch_def cacheGet_def cacheSet_def generateKey_def
  roundCoord_def optSnapToDoors_def optAllowLockedDoors_def optRoomTraversalMode_def
  optPublicRoomDoorCount_def optPublicRoomArea_def roomIsPublic_def doorResult_def routeOptions_def
  sameRoomRoute_def graphRoute_def sameRoomOf_def doorFailure_def findBestPath_def connectable_def
  pushUnique_def routeNodeFilter_def buildAllowedRoomIds_def setAdd_def isPublicRoom_def
  findNearestWalkableNode_def isConnectorClear_def getRoomDoorCandidates_def findRoomAtPoint_def
  isPointInRoom_def setRouteError_def getLastRouteError_def

lemmas route_defs =
  corridorRoute_def acrossRoomRoute_def aroundFurnitureRoute_def nodeSegment_def graphMeta_def
  noSnapOptions_def demoEngineWith_def roomNW_def roomNE_def roomSW_def roomSE_def corridorW_def
  corridorE_def

lemma findRoute_miss:
  assumes "initialized eng" and "cacheMiss eng startCoords endCoords startFloorId endFloorId opts"
  shows "findRoute T eng startCoords endCoords startFloorId endFloorId opts
           = findRouteFresh T eng startCoords endCoords startFloorId endFloorId opts"
  using assms by (auto simp: findRoute_def cacheMiss_def split: prod.splits option.splits)

lemma findRoute_hit:
  assumes "initialized eng" and "o_useCache opts \<noteq> Some False"
      and "map_of (pc_cache (pathCache eng)) (generateKey startCoords endCoords startFloorId endFloorId opts) = Some cached"
  shows "findRoute T eng startCoords endCoords startFloorId endFloorId opts
           = Some (Inr (eng\<lparr>pathCache := (pathCache eng)
                          \<lparr>pc_cache := AList.update (generateKey startCoords endCoords startFloorId endFloorId opts) cached
                                         (AList.delete (generateKey startCoords endCoords startFloorId endFloorId opts)
                                            (pc_cache (pathCache eng)))\<rparr>\<rparr>, Some cached))"
  using assms by (simp add: findRoute_def cacheGet_def Let_def)

text \<open>Three queries on the fresh engine that go through the graph search.\<close>

lemma corridor_query:
  "findRoute demoTurf demoEngine corridorW corridorE ''F0'' ''F0'' defaultOptions
     = Some (Inr (demoEngineWith (generateKey corridorW corridorE ''F0'' ''F0'' defaultOptions) corridorRoute,
                  Some corridorRoute))"
  by (simp add: engine_defs detector_defs astar_defs demo_scene route_defs Let_def)

lemma across_room_query:
  "findRoute demoTurf demoEngine roomNW roomNE ''F0'' ''F0'' noSnapOptions
     = Some (Inr (demoEngineWith (generateKey roomNW roomNE ''F0'' ''F0'' defaultOptions) acrossRoomRoute,
                  Some acrossRoomRoute))"
  by (simp add: engine_defs detector_defs astar_defs demo_scene route_defs Let_def)

lemma around_furniture_query:
  "findRoute demoTurf demoEngine roomSW roomSE ''F0'' ''F0'' noSnapOptions
     = Some (Inr (demoEngineWith (generateKey roomSW roomSE ''F0'' ''F0'' defaultOptions) aroundFurnitureRoute,
                  Some aroundFurnitureRoute))"
  by (simp add: engine_defs detector_defs astar_defs demo_scene route_defs Let_def)

text \<open>The same query again, with the empty options, is answered from the cache.\<close>

lemma cached_query:
  "findRoute T (demoEngineWith (generateKey s e sf ef defaultOptions) rt) s e sf ef defaultOptions
     = Some (Inr (demoEngineWith (generateKey s e sf ef defaultOptions) rt, Some rt))"
  by (simp add: findRoute_hit demoEngineWith_def demoEngine_def defaultOptions_def)

lemma demo_rooms:
  "findRoomAtPoint demoTurf demoEngine roomNW ''F0'' = Some roomR1"
  "findRoomAtPoint demoTurf demoEngine roomNE ''F0'' = Some roomR1"
  "findRoomAtPoint demoTurf demoEngine roomSW ''F0'' = Some roomR1"
  "findRoomAtPoint demoTurf demoEngine roomSE ''F0'' = Some roomR1"
  "findRoomAtPoint demoTurf demoEngine corridorE ''F0'' = None"
  by (simp_all add: findRoomAtPoint_def isPointInRoom_def demo_scene route_defs)

lemma demo_clear:
  "isPathClear demoTurf (eg_collisionDetector demoEngine) roomNW roomNE ''F0''"
  "\<not> isPathClear demoTurf (eg_collisionDetector demoEngine) roomSW roomSE ''F0''"
  by (simp_all add: detector_defs demo_scene route_defs)

lemma demo_initialized: "initialized demoEngine"
  by (simp add: demoEngine_def)

lemma demo_private: "privateRoomAllLocked demoEngine defaultOptions (Some roomR1)"
  by (simp add: privateRoomAllLocked_def roomIsPublic_def isPublicRoom_def optPublicRoomDoorCount_def
        optPublicRoomArea_def demo_scene)

lemma demo_miss: "cacheMiss demoEngine s e sf ef opts"
  by (simp add: cacheMiss_def cacheGet_def demoEngine_def)

lemma default_snap: "o_snapToDoors defaultOptions \<noteq> Some False"
  by (simp add: defaultOptions_def)

lemma default_locked: "o_allowLockedDoors defaultOptions \<noteq> Some True"
  by (simp add: defaultOptions_def)

lemma findRoomAtPoint_reset [simp]:
  "findRoomAtPoint T (eng\<lparr>lastRouteError := x\<rparr>) c f = findRoomAtPoint T eng c f"
  by (simp add: findRoomAtPoint_def)

lemma doorResult_reset [simp]:
  "doorResult (eng\<lparr>lastRouteError := x\<rparr>) opts rm = doorResult eng opts rm"
  by (simp add: doorResult_def roomIsPublic_def getRoomDoorCandidates_def split: option.splits)

subsection \<open>The same-room shortcut\<close>

text \<open>
  Claim C2, as the claim states it, fails. In the small building \<open>roomNW\<close> and \<open>roomNE\<close>
  lie in the room \<open>R1\<close> with a clear path between them. With \<open>snapToDoors: false\<close> the
  engine does not look for rooms: the query goes through the graph search and returns the
  route over the nodes \<open>N3\<close> and \<open>N2\<close>, which is stored in the cache. The cache key does
  not contain \<open>snapToDoors\<close>, so the same query with the empty options is then answered
  from the cache with that route: \<open>nodeIds\<close> is not empty and the path is not the two
  endpoints.
\<close>

theorem findRoute_same_room_clear_counterexample:
  "findRoomAtPoint demoTurf demoEngine roomNW ''F0'' = Some roomR1
   \<and> findRoomAtPoint demoTurf demoEngine roomNE ''F0'' = Some roomR1
   \<and> isPathClear demoTurf (eg_collisionDetector demoEngine) roomNW roomNE ''F0''
   \<and> findRoute demoTurf demoEngine roomNW roomNE ''F0'' ''F0'' noSnapOptions
       = Some (Inr (demoEngineWith (generateKey roomNW roomNE ''F0'' ''F0'' defaultOptions) acrossRoomRoute,
                    Some acrossRoomRoute))
   \<and> findRoute demoTurf (demoEngineWith (generateKey roomNW roomNE ''F0'' ''F0'' defaultOptions) acrossRoomRoute)
        roomNW roomNE ''F0'' ''F0'' defaultOptions
       = Some (Inr (demoEngineWith (generateKey roomNW roomNE ''F0'' ''F0'' defaultOptions) acrossRoomRoute,
                    Some acrossRoomRoute))
   \<and> r_nodeIds acrossRoomRoute = [''N3'', ''N2'']
   \<and> r_path acrossRoomRoute = [n_coords nodeN3, n_coords nodeN2]"
proof -
  have "r_nodeIds acrossRoomRoute = [''N3'', ''N2'']"
    and "r_path acrossRoomRoute = [n_coords nodeN3, n_coords nodeN2]"
    by (simp_all add: acrossRoomRoute_def nodeN3_def nodeN2_def roomNode_def)
  with demo_rooms(1,2) demo_clear(1) across_room_query
    cached_query [of demoTurf roomNW roomNE "''F0''" "''F0''" acrossRoomRoute]
  show ?thesis by blast
qed

text \<open>
  Claim C2, amended. On an initialized engine, for a query that is not answered from the
  path cache and does not disable \<open>snapToDoors\<close>: when \<open>findRoomAtPoint\<close> finds start and
  end in the same room and \<open>isPathClear\<close> holds between them on the start floor, \<open>findRoute\<close>
  returns a route whose path is the two endpoints, with no node ids, and whose distance is
  the distance of the geometry library between the endpoints; the error slot is \<open>null\<close>.
\<close>

theorem findRoute_same_room_clear:
  assumes "initialized eng"
      and "cacheMiss eng startCoords endCoords startFloorId endFloorId opts"
      and "o_snapToDoors opts \<noteq> Some False"
      and "findRoomAtPoint T eng startCoords startFloorId = Some startRoom"
      and "findRoomAtPoint T eng endCoords endFloorId = Some endRoom"
      and "rm_geometryId startRoom = rm_geometryId endRoom"
      and "isPathClear T (eg_collisionDetector eng) startCoords endCoords startFloorId"
  shows "\<exists>rt. findRoute T eng startCoords endCoords startFloorId endFloorId opts
                = Some (Inr (eng\<lparr>lastRouteError := None\<rparr>, Some rt))
              \<and> r_path rt = [startCoords, endCoords]
              \<and> r_nodeIds rt = []
              \<and> r_distance rt = turf_distance T startCoords endCoords"
proof -
  have "findRoute T eng startCoords endCoords startFloorId endFloorId opts
          = findRouteFresh T eng startCoords endCoords startFloorId endFloorId opts"
    using assms(1,2) by (rule findRoute_miss)
  also have "\<dots> = Some (Inr (eng\<lparr>lastRouteError := None\<rparr>,
                    Some (sameRoomRoute T startCoords endCoords startFloorId endFloorId startRoom endRoom)))"
    using assms(3-7) by (simp add: findRouteFresh_def optSnapToDoors_def sameRoomOf_def Let_def)
  finally show ?thesis by (simp add: sameRoomRoute_def Let_def)
qed

theorem findRoute_same_room_clear_witness:
  "initialized demoEngine
   \<and> cacheMiss demoEngine roomNW roomNE ''F0'' ''F0'' defaultOptions
   \<and> o_snapToDoors defaultOptions \<noteq> Some False
   \<and> findRoomAtPoint demoTurf demoEngine roomNW ''F0'' = Some roomR1
   \<and> findRoomAtPoint demoTurf demoEngine roomNE ''F0'' = Some roomR1
   \<and> isPathClear demoTurf (eg_collisionDetector demoEngine) roomNW roomNE ''F0''
   \<and> (\<exists>rt. findRoute demoTurf demoEngine roomNW roomNE ''F0'' ''F0'' defaultOptions
               = Some (Inr (demoEngine\<lparr>lastRouteError := None\<rparr>, Some rt))
            \<and> r_path rt = [roomNW, roomNE]
            \<and> r_nodeIds rt = []
            \<and> r_distance rt = turf_distance demoTurf roomNW roomNE)"
  using findRoute_same_room_clear
          [OF demo_initialized demo_miss default_snap demo_rooms(1) demo_rooms(2) refl demo_clear(1)]
        demo_initialized demo_miss default_snap demo_rooms(1,2) demo_clear(1)
  by blast

text \<open>
  Claim C10, as the claim states it, fails. \<open>roomSW\<close> and \<open>roomSE\<close> lie in the room \<open>R1\<close>
  with the furniture between them. With \<open>snapToDoors: false\<close> the query goes through the
  graph search, which finds the route around the furniture and caches it; the same query
  with the empty options is then answered from the cache: a route is returned, and no
  error is recorded.
\<close>

theorem findRoute_same_room_blocked_counterexample:
  "findRoomAtPoint demoTurf demoEngine roomSW ''F0'' = Some roomR1
   \<and> findRoomAtPoint demoTurf demoEngine roomSE ''F0'' = Some roomR1
   \<and> \<not> isPathClear demoTurf (eg_collisionDetector demoEngine) roomSW roomSE ''F0''
   \<and> findRoute demoTurf demoEngine roomSW roomSE ''F0'' ''F0'' noSnapOptions
       = Some (Inr (demoEngineWith (generateKey roomSW roomSE ''F0'' ''F0'' defaultOptions) aroundFurnitureRoute,
                    Some aroundFurnitureRoute))
   \<and> findRoute demoTurf (demoEngineWith (generateKey roomSW roomSE ''F0'' ''F0'' defaultOptions) aroundFurnitureRoute)
        roomSW roomSE ''F0'' ''F0'' defaultOptions
       = Some (Inr (demoEngineWith (generateKey roomSW roomSE ''F0'' ''F0'' defaultOptions) aroundFurnitureRoute,
                    Some aroundFurnitureRoute))
   \<and> getLastRouteError (demoEngineWith (generateKey roomSW roomSE ''F0'' ''F0'' defaultOptions) aroundFurnitureRoute)
       = None"
proof -
  have "getLastRouteError (demoEngineWith (generateKey roomSW roomSE ''F0'' ''F0'' defaultOptions) aroundFurnitureRoute)
       = None"
    by (simp add: getLastRouteError_def demoEngineWith_def demoEngine_def)
  with demo_rooms(3,4) demo_clear(2) around_furniture_query
    cached_query [of demoTurf roomSW roomSE "''F0''" "''F0''" aroundFurnitureRoute]
  show ?thesis by blast
qed

text \<open>
  Claim C10, amended. On an initialized engine, for a query that is not answered from the
  path cache and does not disable \<open>snapToDoors\<close>: when \<open>findRoomAtPoint\<close> finds start and
  end in the same room and \<open>isPathClear\<close> fails between them, \<open>findRoute\<close> returns \<open>null\<close>
  and the engine differs from the one before the call only in the error slot, which holds
  the code \<open>no-path\<close>. The result does not depend on the graph, the doors or the walkable
  nodes: none of them is consulted.
\<close>

theorem findRoute_same_room_blocked:
  assumes "initialized eng"
      and "cacheMiss eng startCoords endCoords startFloorId endFloorId opts"
      and "o_snapToDoors opts \<noteq> Some False"
      and "findRoomAtPoint T eng startCoords startFloorId = Some startRoom"
      and "findRoomAtPoint T eng endCoords endFloorId = Some endRoom"
      and "rm_geometryId startRoom = rm_geometryId endRoom"
      and "\<not> isPathClear T (eg_collisionDetector eng) startCoords endCoords startFloorId"
  shows "findRoute T eng startCoords endCoords startFloorId endFloorId opts
           = Some (Inr (eng\<lparr>lastRouteError :=
                          Some \<lparr>re_code = ''no-path'', re_message = ''No clear path inside this room.''\<rparr>\<rparr>, None))"
proof -
  have "findRoute T eng startCoords endCoords startFloorId endFloorId opts
          = findRouteFresh T eng startCoords endCoords startFloorId endFloorId opts"
    using assms(1,2) by (rule findRoute_miss)
  also have "\<dots> = Some (Inr (eng\<lparr>lastRouteError :=
                          Some \<lparr>re_code = ''no-path'', re_message = ''No clear path inside this room.''\<rparr>\<rparr>, None))"
    using assms(3-7) by (simp add: findRouteFresh_def optSnapToDoors_def sameRoomOf_def setRouteError_def Let_def)
  finally show ?thesis .
qed

theorem findRoute_same_room_blocked_witness:
  "initialized demoEngine
   \<and> cacheMiss demoEngine roomSW roomSE ''F0'' ''F0'' defaultOptions
   \<and> o_snapToDoors defaultOptions \<noteq> Some False
   \<and> findRoomAtPoint demoTurf demoEngine roomSW ''F0'' = Some roomR1
   \<and> findRoomAtPoint demoTurf demoEngine roomSE ''F0'' = Some roomR1
   \<and> \<not> isPathClear demoTurf (eg_collisionDetector demoEngine) roomSW roomSE ''F0''
   \<and> findRoute demoTurf demoEngine roomSW roomSE ''F0'' ''F0'' defaultOptions
       = Some (Inr (demoEngine\<lparr>lastRouteError :=
                      Some \<lparr>re_code = ''no-path'', re_message = ''No clear path inside this room.''\<rparr>\<rparr>, None))"
  using findRoute_same_room_blocked
          [OF demo_initialized demo_miss default_snap demo_rooms(3) demo_rooms(4) refl demo_clear(2)]
        demo_initialized demo_miss default_snap demo_rooms(3,4) demo_clear(2)
  by blast

subsection \<open>Locked rooms\<close>

lemma doorFailure_locked:
  assumes "privateRoomAllLocked eng opts rm" and "o_allowLockedDoors opts \<noteq> Some True"
  shows "doorFailure (doorResult eng opts rm) lockedMessage missingMessage = Some lockedMessage"
proof -
  from assms(1) obtain r doors where
    r: "rm = Some r" and priv: "\<not> roomIsPublic eng opts rm"
    and doors: "roomDoorIndex eng (rm_geometryId r) = Some doors" "doors \<noteq> []"
      "list_all (\<lambda>door. md_isLocked (n_metadata door)) doors"
    by (auto simp: privateRoomAllLocked_def split: option.splits)
  have "filter (\<lambda>door. optAllowLockedDoors opts \<or> \<not> md_isLocked (n_metadata door)) doors = []"
    using doors(3) assms(2) by (auto simp: optAllowLockedDoors_def list_all_iff filter_empty_conv)
  then show ?thesis
    using r priv doors(1,2)
    by (simp add: doorFailure_def doorResult_def getRoomDoorCandidates_def)
qed

text \<open>
  Claim C6, as the claim states it, fails. \<open>roomNW\<close> lies in the private room \<open>R1\<close>, whose
  only door is locked, and locked doors are not allowed; the destination \<open>roomNE\<close> is in
  the same room with a clear path. \<open>findRoute\<close> returns the two-point route of the
  same-room shortcut and records no error.
\<close>

theorem findRoute_locked_private_room_counterexample:
  "privateRoomAllLocked demoEngine defaultOptions (findRoomAtPoint demoTurf demoEngine roomNW ''F0'')
   \<and> o_allowLockedDoors defaultOptions \<noteq> Some True
   \<and> findRoute demoTurf demoEngine roomNW roomNE ''F0'' ''F0'' defaultOptions
       = Some (Inr (demoEngine, Some (sameRoomRoute demoTurf roomNW roomNE ''F0'' ''F0'' roomR1 roomR1)))
   \<and> getLastRouteError demoEngine = None"
proof -
  have "findRoute demoTurf demoEngine roomNW roomNE ''F0'' ''F0'' defaultOptions
          = findRouteFresh demoTurf demoEngine roomNW roomNE ''F0'' ''F0'' defaultOptions"
    by (rule findRoute_miss [OF demo_initialized demo_miss])
  also have "\<dots> = Some (Inr (demoEngine\<lparr>lastRouteError := None\<rparr>,
                    Some (sameRoomRoute demoTurf roomNW roomNE ''F0'' ''F0'' roomR1 roomR1)))"
    using demo_rooms(1,2) demo_clear(1) default_snap
    by (simp add: findRouteFresh_def optSnapToDoors_def sameRoomOf_def Let_def)
  also have "demoEngine\<lparr>lastRouteError := None\<rparr> = demoEngine"
    by (simp add: demoEngine_def)
  finally have run: "findRoute demoTurf demoEngine roomNW roomNE ''F0'' ''F0'' defaultOptions
       = Some (Inr (demoEngine, Some (sameRoomRoute demoTurf roomNW roomNE ''F0'' ''F0'' roomR1 roomR1)))" .
  have err: "getLastRouteError demoEngine = None"
    by (simp add: getLastRouteError_def demoEngine_def)
  have "privateRoomAllLocked demoEngine defaultOptions (findRoomAtPoint demoTurf demoEngine roomNW ''F0'')"
    unfolding demo_rooms(1) by (rule demo_private)
  with run err default_locked show ?thesis by blast
qed

text \<open>
  Claim C6, amended. On an initialized engine, for a query that is not answered from the
  path cache, does not disable \<open>snapToDoors\<close> and whose endpoints are not found in one and
  the same room: when the room found at the start or at the end is private, has at least one
  door and all its doors are locked, and \<open>allowLockedDoors\<close> is not true, \<open>findRoute\<close>
  returns \<open>null\<close> and records an error with the code \<open>no-door\<close>.
\<close>

theorem findRoute_locked_private_room:
  assumes "initialized eng"
      and "cacheMiss eng startCoords endCoords startFloorId endFloorId opts"
      and "o_snapToDoors opts \<noteq> Some False"
      and "sameRoomOf (findRoomAtPoint T eng startCoords startFloorId)
             (findRoomAtPoint T eng endCoords endFloorId) = None"
      and "privateRoomAllLocked eng opts (findRoomAtPoint T eng startCoords startFloorId)
           \<or> privateRoomAllLocked eng opts (findRoomAtPoint T eng endCoords endFloorId)"
      and "o_allowLockedDoors opts \<noteq> Some True"
  shows "\<exists>message. findRoute T eng startCoords endCoords startFloorId endFloorId opts
           = Some (Inr (eng\<lparr>lastRouteError := Some \<lparr>re_code = ''no-door'', re_message = message\<rparr>\<rparr>, None))"
proof -
  let ?sr = "findRoomAtPoint T eng startCoords startFloorId"
  let ?er = "findRoomAtPoint T eng endCoords endFloorId"
  let ?fs = "doorFailure (doorResult eng opts ?sr)
               ''All doors are locked for the start room.'' ''No doors found for the start room.''"
  let ?fe = "doorFailure (doorResult eng opts ?er)
               ''All doors are locked for the destination room.'' ''No doors found for the destination room.''"
  have fresh: "findRoute T eng startCoords endCoords startFloorId endFloorId opts
          = findRouteFresh T eng startCoords endCoords startFloorId endFloorId opts"
    using assms(1,2) by (rule findRoute_miss)
  have "(\<exists>message. ?fs = Some message) \<or> (?fs = None \<and> (\<exists>message. ?fe = Some message))"
  proof (cases ?fs)
    case None
    have "\<not> privateRoomAllLocked eng opts ?sr"
      using doorFailure_locked [OF _ assms(6), of eng ?sr] None by auto
    with assms(5) have "privateRoomAllLocked eng opts ?er" by blast
    from doorFailure_locked [OF this assms(6)] None show ?thesis by blast
  next
    case (Some message)
    then show ?thesis by blast
  qed
  then show ?thesis
    unfolding fresh using assms(3,4)
    by (auto simp: findRouteFresh_def optSnapToDoors_def setRouteError_def Let_def)
qed

theorem findRoute_locked_private_room_witness:
  "initialized demoEngine
   \<and> cacheMiss demoEngine roomSW corridorE ''F0'' ''F0'' defaultOptions
   \<and> o_snapToDoors defaultOptions \<noteq> Some False
   \<and> sameRoomOf (findRoomAtPoint demoTurf demoEngine roomSW ''F0'')
        (findRoomAtPoint demoTurf demoEngine corridorE ''F0'') = None
   \<and> privateRoomAllLocked demoEngine defaultOptions (findRoomAtPoint demoTurf demoEngine roomSW ''F0'')
   \<and> o_allowLockedDoors defaultOptions \<noteq> Some True
   \<and> (\<exists>message. findRoute demoTurf demoEngine roomSW corridorE ''F0'' ''F0'' defaultOptions
         = Some (Inr (demoEngine\<lparr>lastRouteError := Some \<lparr>re_code = ''no-door'', re_message = message\<rparr>\<rparr>, None)))"
proof -
  have notSame: "sameRoomOf (findRoomAtPoint demoTurf demoEngine roomSW ''F0'')
        (findRoomAtPoint demoTurf demoEngine corridorE ''F0'') = None"
    by (simp add: demo_rooms sameRoomOf_def)
  have locked: "privateRoomAllLocked demoEngine defaultOptions (findRoomAtPoint demoTurf demoEngine roomSW ''F0'')"
    unfolding demo_rooms(3) by (rule demo_private)
  from findRoute_locked_private_room
         [OF demo_initialized demo_miss default_snap notSame disjI1 [OF locked] default_locked]
       demo_initialized demo_miss default_snap notSame locked default_locked
  show ?thesis by blast
qed


subsection \<open>The error slot\<close>

lemma locked_room_query:
  "findRoute demoTurf (demoEngineWith (generateKey corridorW corridorE ''F0'' ''F0'' defaultOptions) corridorRoute)
     roomSW corridorE ''F0'' ''F0'' defaultOptions
   = Some (Inr ((demoEngineWith (generateKey corridorW corridorE ''F0'' ''F0'' defaultOptions) corridorRoute)
                  \<lparr>lastRouteError := Some lockedStartError\<rparr>, None))"
  by (simp add: engine_defs demo_scene route_defs lockedStartError_def Let_def)

lemma cached_query_after_error:
  "findRoute T ((demoEngineWith (generateKey s e sf ef defaultOptions) rt)\<lparr>lastRouteError := err\<rparr>)
     s e sf ef defaultOptions
   = Some (Inr ((demoEngineWith (generateKey s e sf ef defaultOptions) rt)\<lparr>lastRouteError := err\<rparr>, Some rt))"
  by (simp add: findRoute_hit demoEngineWith_def demoEngine_def defaultOptions_def)

text \<open>
  Claim C9. The claim wants the error slot to hold, after every call, \<open>null\<close> or the failure
  of that very call. Three calls in the small building: the corridor query succeeds and is
  cached; the query out of the locked room fails and records \<open>no-door\<close>; the corridor
  query again is answered from the cache, before the statement that resets the slot, so
  that it succeeds while the slot still holds the \<open>no-door\<close> of the earlier call.
\<close>

theorem findRoute_cached_answer_keeps_old_error:
  "findRoute demoTurf demoEngine corridorW corridorE ''F0'' ''F0'' defaultOptions
     = Some (Inr (demoEngineWith (generateKey corridorW corridorE ''F0'' ''F0'' defaultOptions) corridorRoute,
                  Some corridorRoute))
   \<and> findRoute demoTurf (demoEngineWith (generateKey corridorW corridorE ''F0'' ''F0'' defaultOptions) corridorRoute)
        roomSW corridorE ''F0'' ''F0'' defaultOptions
     = Some (Inr ((demoEngineWith (generateKey corridorW corridorE ''F0'' ''F0'' defaultOptions) corridorRoute)
                    \<lparr>lastRouteError := Some lockedStartError\<rparr>, None))
   \<and> findRoute demoTurf
        ((demoEngineWith (generateKey corridorW corridorE ''F0'' ''F0'' defaultOptions) corridorRoute)
           \<lparr>lastRouteError := Some lockedStartError\<rparr>)
        corridorW corridorE ''F0'' ''F0'' defaultOptions
     = Some (Inr ((demoEngineWith (generateKey corridorW corridorE ''F0'' ''F0'' defaultOptions) corridorRoute)
                    \<lparr>lastRouteError := Some lockedStartError\<rparr>, Some corridorRoute))
   \<and> getLastRouteError
        ((demoEngineWith (generateKey corridorW corridorE ''F0'' ''F0'' defaultOptions) corridorRoute)
           \<lparr>lastRouteError := Some lockedStartError\<rparr>)
     = Some lockedStartError
   \<and> re_code lockedStartError = ''no-door''"
proof -
  have "getLastRouteError
        ((demoEngineWith (generateKey corridorW corridorE ''F0'' ''F0'' defaultOptions) corridorRoute)
           \<lparr>lastRouteError := Some lockedStartError\<rparr>)
     = Some lockedStartError"
    and "re_code lockedStartError = ''no-door''"
    by (simp_all add: getLastRouteError_def lockedStartError_def)
  with corridor_query locked_room_query
    cached_query_after_error [where T = demoTurf and s = corridorW and e = corridorE and sf = "''F0''"
      and ef = "''F0''" and rt = corridorRoute and err = "Some lockedStartError"]
  show ?thesis by blast
qed

subsection \<open>The endpoints of the path\<close>

text \<open>The path of a route assembled after the graph search is the list of the coordinates
  of the nodes of a search result.\<close>

lemma endLoop_fromSearch:
  assumes "endLoop T g optionsForPath startCoords endCoords startCandidate best ends = Some result"
      and "fromSearch T g optionsForPath best"
  shows "fromSearch T g optionsForPath result"
  using assms
proof (induction ends arbitrary: best)
  case Nil
  then show ?case by simp
next
  case (Cons endCandidate rest)
  show ?case
  proof (cases "findPath T g (n_id startCandidate) (n_id endCandidate) optionsForPath")
    case None
    with Cons.prems show ?thesis by simp
  next
    case (Some found)
    show ?thesis
    proof (cases found)
      case None
      with Some Cons show ?thesis by simp
    next
      case (Some path)
      have new: "fromSearch T g optionsForPath (Some (path, startCandidate, endCandidate, d))" for d
        using \<open>findPath T g (n_id startCandidate) (n_id endCandidate) optionsForPath = Some found\<close> Some
        by (simp add: fromSearch_def)
      from Cons.prems(1) \<open>findPath T g (n_id startCandidate) (n_id endCandidate) optionsForPath = Some found\<close> Some
      consider "endLoop T g optionsForPath startCoords endCoords startCandidate best rest = Some result"
        | d where "endLoop T g optionsForPath startCoords endCoords startCandidate
                     (Some (path, startCandidate, endCandidate, d)) rest = Some result"
        by (auto simp: Let_def split: option.splits if_splits)
      then show ?thesis
      proof cases
        case 1
        from Cons.IH [OF this Cons.prems(2)] show ?thesis .
      next
        case 2
        from Cons.IH [OF this new] show ?thesis .
      qed
    qed
  qed
qed

lemma startLoop_fromSearch:
  assumes "startLoop T g optionsForPath startCoords endCoords ends best starts = Some result"
      and "fromSearch T g optionsForPath best"
  shows "fromSearch T g optionsForPath result"
  using assms
proof (induction starts arbitrary: best)
  case Nil
  then show ?case by simp
next
  case (Cons startCandidate rest)
  from Cons.prems(1) obtain best' where
    inner: "endLoop T g optionsForPath startCoords endCoords startCandidate best ends = Some best'"
    and outer: "startLoop T g optionsForPath startCoords endCoords ends best' rest = Some result"
    by (auto split: option.splits)
  from endLoop_fromSearch [OF inner Cons.prems(2)] have "fromSearch T g optionsForPath best'" .
  from Cons.IH [OF outer this] show ?case .
qed

lemma findBestPath_fromSearch:
  assumes "findBestPath T g startCoords endCoords starts ends optionsForPath = Some (Some (best, bestStart, bestEnd, d))"
  shows "findPath T g (n_id bestStart) (n_id bestEnd) optionsForPath = Some (Some best)"
proof -
  have "fromSearch T g optionsForPath None" by (simp add: fromSearch_def)
  from startLoop_fromSearch [OF assms [unfolded findBestPath_def] this]
  show ?thesis by (simp add: fromSearch_def)
qed

lemma findRouteSearch_path:
  assumes "findRouteSearch T eng startCoords endCoords startFloorId endFloorId opts startRoom endRoom
             = Some (Inr (eng', Some rt))"
  shows "\<exists>startId endId optionsForPath best.
           findPath T (eg_graph eng) startId endId optionsForPath = Some (Some best)
           \<and> r_path rt = ap_coords best \<and> r_nodeIds rt = ap_nodeIds best"
proof -
  let ?starts = "connectable T eng startCoords startFloorId startRoom
                   (pushUnique (pushUnique []
                      (case (case findNearestWalkableNode eng startCoords startFloorId of
                               Some n \<Rightarrow> Some n
                             | None \<Rightarrow> findNearestNode (eg_graph eng) startCoords startFloorId) of
                         Some n \<Rightarrow> [n] | None \<Rightarrow> []))
                      (case doorResult eng opts startRoom of Some d \<Rightarrow> dc_available d | None \<Rightarrow> []))"
  let ?ends = "connectable T eng endCoords endFloorId endRoom
                   (pushUnique (pushUnique []
                      (case (case findNearestWalkableNode eng endCoords endFloorId of
                               Some n \<Rightarrow> Some n
                             | None \<Rightarrow> findNearestNode (eg_graph eng) endCoords endFloorId) of
                         Some n \<Rightarrow> [n] | None \<Rightarrow> []))
                      (case doorResult eng opts endRoom of Some d \<Rightarrow> dc_available d | None \<Rightarrow> []))"
  let ?ropts = "routeOptions eng opts startRoom endRoom"
  let ?relaxed = "?ropts\<lparr>o_disallowOtherRooms := False, o_allowedRoomIds := None\<rparr>"
  from assms obtain att mode o' where
    found: "findBestPath T (eg_graph eng) startCoords endCoords ?starts ?ends o' = Some (Some att)"
    and rt: "rt = graphRoute startCoords endCoords startFloorId endFloorId startRoom endRoom att mode"
    by (auto simp: findRouteSearch_def Let_def split: if_splits option.splits prod.splits)
  obtain best bestStart bestEnd d where att: "att = (best, bestStart, bestEnd, d)"
    by (cases att) auto
  from findBestPath_fromSearch [OF found [unfolded att]]
  have "findPath T (eg_graph eng) (n_id bestStart) (n_id bestEnd) o' = Some (Some best)" .
  moreover have "r_path rt = ap_coords best \<and> r_nodeIds rt = ap_nodeIds best"
    using rt att by (simp add: graphRoute_def)
  ultimately show ?thesis by blast
qed

lemma corridor_connectors:
  "isConnectorClear demoTurf demoEngine corridorW (n_coords nodeN4) ''F0''"
  "isConnectorClear demoTurf demoEngine (n_coords nodeN5) corridorE ''F0''"
  "r_path corridorRoute = [n_coords nodeN4, n_coords nodeN5]"
  "corridorW \<noteq> n_coords nodeN4" "corridorE \<noteq> n_coords nodeN5"
  by (simp_all add: isConnectorClear_def detector_defs demo_scene route_defs)

text \<open>
  Claim C7, as the claim states it, fails. The corridor query succeeds; the connectors from
  the start to the first node and from the last node to the end are both clear; the path of
  the returned route is the two nodes only. The route record has no field for warnings.
\<close>

theorem findRoute_path_not_extended_counterexample:
  "findRoute demoTurf demoEngine corridorW corridorE ''F0'' ''F0'' defaultOptions
     = Some (Inr (demoEngineWith (generateKey corridorW corridorE ''F0'' ''F0'' defaultOptions) corridorRoute,
                  Some corridorRoute))
   \<and> r_path corridorRoute = [n_coords nodeN4, n_coords nodeN5]
   \<and> isConnectorClear demoTurf demoEngine corridorW (n_coords nodeN4) ''F0''
   \<and> isConnectorClear demoTurf demoEngine (n_coords nodeN5) corridorE ''F0''
   \<and> corridorW \<noteq> n_coords nodeN4
   \<and> corridorE \<noteq> n_coords nodeN5"
  using corridor_query corridor_connectors by blast

text \<open>What \<open>withRouteEndpoints\<close> returns for a route with a non-empty path.\<close>

lemma withRouteEndpoints_result:
  assumes "r_path rt \<noteq> []"
  shows "\<exists>er. withRouteEndpoints T (Some cd) rt startCoords endCoords startFloorId endFloorId = Some er
           \<and> r_path er =
               (if \<not> coordsEqual (hd (r_path rt)) startCoords
                   \<and> isPathClear T cd startCoords (hd (r_path rt)) startFloorId
                then [startCoords] else [])
               @ r_path rt
               @ (if \<not> coordsEqual (last (r_path rt)) endCoords
                     \<and> isPathClear T cd (last (r_path rt)) endCoords endFloorId
                  then [endCoords] else [])
           \<and> (''Start point is blocked by walls.'' \<in> set (er_warnings er)
                \<longleftrightarrow> \<not> coordsEqual (hd (r_path rt)) startCoords
                    \<and> \<not> isPathClear T cd startCoords (hd (r_path rt)) startFloorId)
           \<and> (''Destination is blocked by walls.'' \<in> set (er_warnings er)
                \<longleftrightarrow> \<not> coordsEqual (last (r_path rt)) endCoords
                    \<and> \<not> isPathClear T cd (last (r_path rt)) endCoords endFloorId)
           \<and> r_nodeIds er = r_nodeIds rt \<and> r_distance er = r_distance rt"
  using assms
  by (simp add: withRouteEndpoints_def Let_def route.defs enrichedRoute.defs)


text \<open>
  Claim C7, amended. \<open>findRoute\<close> returns the path of the graph search as it is: the path
  and the node ids of a route assembled after the graph search are those of a search result.
  The endpoints are added afterwards by \<open>DirectionsUI.withRouteEndpoints\<close>: for a route
  with a non-empty path it prepends the start coordinate iff the path does not already
  begin there (within 1e-7 degrees) and the connector from the start to the first point is
  clear, and appends the end coordinate likewise; the enriched route carries the warning of
  an endpoint iff the path does not begin (end) there and its connector is not clear.
\<close>

theorem route_endpoints_added_afterwards:
  "(findRouteSearch T eng startCoords endCoords startFloorId endFloorId opts startRoom endRoom
      = Some (Inr (eng', Some found))
    \<longrightarrow> (\<exists>startId endId optionsForPath best.
           findPath T (eg_graph eng) startId endId optionsForPath = Some (Some best)
           \<and> r_path found = ap_coords best \<and> r_nodeIds found = ap_nodeIds best))
   \<and> (r_path rt \<noteq> []
    \<longrightarrow> (\<exists>er. withRouteEndpoints T (Some cd) rt startCoords endCoords startFloorId endFloorId = Some er
           \<and> r_path er =
               (if \<not> coordsEqual (hd (r_path rt)) startCoords
                   \<and> isPathClear T cd startCoords (hd (r_path rt)) startFloorId
                then [startCoords] else [])
               @ r_path rt
               @ (if \<not> coordsEqual (last (r_path rt)) endCoords
                     \<and> isPathClear T cd (last (r_path rt)) endCoords endFloorId
                  then [endCoords] else [])
           \<and> (''Start point is blocked by walls.'' \<in> set (er_warnings er)
                \<longleftrightarrow> \<not> coordsEqual (hd (r_path rt)) startCoords
                    \<and> \<not> isPathClear T cd startCoords (hd (r_path rt)) startFloorId)
           \<and> (''Destination is blocked by walls.'' \<in> set (er_warnings er)
                \<longleftrightarrow> \<not> coordsEqual (last (r_path rt)) endCoords
                    \<and> \<not> isPathClear T cd (last (r_path rt)) endCoords endFloorId)
           \<and> r_nodeIds er = r_nodeIds rt \<and> r_distance er = r_distance rt))"
  using findRouteSearch_path [of T eng startCoords endCoords startFloorId endFloorId opts startRoom endRoom eng' found]
        withRouteEndpoints_result [of rt T cd startCoords endCoords startFloorId endFloorId]
  by blast

text \<open>
  In the small building: the corridor query goes through the graph search, and its route has
  the path of the search from \<open>N4\<close> to \<open>N5\<close>. The route across the room, with a start
  inside the furniture and the end at \<open>roomNE\<close>: the start is not prepended and its
  warning is attached; the end is appended.
\<close>

lemma furniture_connectors:
  "r_path acrossRoomRoute \<noteq> []"
  "hd (r_path acrossRoomRoute) = n_coords nodeN3"
  "last (r_path acrossRoomRoute) = n_coords nodeN2"
  "\<not> coordsEqual (n_coords nodeN3) inFurniture"
  "\<not> isPathClear demoTurf demoDetector inFurniture (n_coords nodeN3) ''F0''"
  "\<not> coordsEqual (n_coords nodeN2) roomNE"
  "isPathClear demoTurf demoDetector (n_coords nodeN2) roomNE ''F0''"
  by (simp_all add: coordsEqual_def detector_defs demo_scene route_defs inFurniture_def)

lemma corridor_search:
  "findRouteSearch demoTurf demoEngine corridorW corridorE ''F0'' ''F0'' defaultOptions None None
     = Some (Inr (demoEngineWith (generateKey corridorW corridorE ''F0'' ''F0'' defaultOptions) corridorRoute,
                  Some corridorRoute))"
proof -
  have rooms: "findRoomAtPoint demoTurf demoEngine corridorW ''F0'' = None"
    "findRoomAtPoint demoTurf demoEngine corridorE ''F0'' = None"
    by (simp_all add: findRoomAtPoint_def isPointInRoom_def demo_scene route_defs)
  have same: "demoEngine\<lparr>lastRouteError := None\<rparr> = demoEngine"
    by (simp add: demoEngine_def)
  have "findRoute demoTurf demoEngine corridorW corridorE ''F0'' ''F0'' defaultOptions
          = findRouteFresh demoTurf demoEngine corridorW corridorE ''F0'' ''F0'' defaultOptions"
    by (rule findRoute_miss [OF demo_initialized demo_miss])
  also have "\<dots> = findRouteSearch demoTurf demoEngine corridorW corridorE ''F0'' ''F0'' defaultOptions None None"
    by (simp add: findRouteFresh_def rooms same sameRoomOf_def doorFailure_def doorResult_def Let_def)
  finally show ?thesis using corridor_query by simp
qed

theorem route_endpoints_added_afterwards_witness:
  "findRouteSearch demoTurf demoEngine corridorW corridorE ''F0'' ''F0'' defaultOptions None None
     = Some (Inr (demoEngineWith (generateKey corridorW corridorE ''F0'' ''F0'' defaultOptions) corridorRoute,
                  Some corridorRoute))
   \<and> (\<exists>startId endId optionsForPath best.
         findPath demoTurf (eg_graph demoEngine) startId endId optionsForPath = Some (Some best)
         \<and> r_path corridorRoute = ap_coords best \<and> r_nodeIds corridorRoute = ap_nodeIds best)
   \<and> r_path acrossRoomRoute \<noteq> []
   \<and> \<not> isPathClear demoTurf demoDetector inFurniture (hd (r_path acrossRoomRoute)) ''F0''
   \<and> isPathClear demoTurf demoDetector (last (r_path acrossRoomRoute)) roomNE ''F0''
   \<and> (\<exists>er. withRouteEndpoints demoTurf (Some demoDetector) acrossRoomRoute inFurniture roomNE ''F0'' ''F0'' = Some er
          \<and> r_path er = r_path acrossRoomRoute @ [roomNE]
          \<and> ''Start point is blocked by walls.'' \<in> set (er_warnings er)
          \<and> ''Destination is blocked by walls.'' \<notin> set (er_warnings er))"
proof -
  note inst1 = route_endpoints_added_afterwards
    [where T = demoTurf and eng = demoEngine and startCoords = corridorW and endCoords = corridorE
       and startFloorId = "''F0''" and endFloorId = "''F0''" and opts = defaultOptions
       and startRoom = None and endRoom = None
       and eng' = "demoEngineWith (generateKey corridorW corridorE ''F0'' ''F0'' defaultOptions) corridorRoute"
       and found = corridorRoute]
  from inst1 [where rt = acrossRoomRoute, THEN conjunct1, rule_format, OF corridor_search]
  have part1: "\<exists>startId endId optionsForPath best.
         findPath demoTurf (eg_graph demoEngine) startId endId optionsForPath = Some (Some best)
         \<and> r_path corridorRoute = ap_coords best \<and> r_nodeIds corridorRoute = ap_nodeIds best" .
  note inst2 = route_endpoints_added_afterwards
    [where T = demoTurf and rt = acrossRoomRoute and cd = demoDetector and startCoords = inFurniture
       and endCoords = roomNE and startFloorId = "''F0''" and endFloorId = "''F0''",
     THEN conjunct2, rule_format, OF furniture_connectors(1)]
  from inst2 obtain er where
    "withRouteEndpoints demoTurf (Some demoDetector) acrossRoomRoute inFurniture roomNE ''F0'' ''F0'' = Some er"
    "r_path er = r_path acrossRoomRoute @ [roomNE]"
    "''Start point is blocked by walls.'' \<in> set (er_warnings er)"
    "''Destination is blocked by walls.'' \<notin> set (er_warnings er)"
    unfolding furniture_connectors(2,3) using furniture_connectors(4-7) by auto
  with furniture_connectors corridor_search part1 show ?thesis by auto
qed

section \<open>NavigationController: the full path\<close>

text \<open>
  \<open>computeRoute\<close> leaves the path of the route of \<open>findRoute\<close> as it is and stores, beside
  it, a full path: the position of the user, the path, and the destination. It tests no
  connector for this.
\<close>

lemma computeRoute_fullPath:
  assumes "computeRoute T nc opts = Some (Inr (nc', Some nr))"
  shows "\<exists>ul dest rawEndCoords.
           nc_userLocation nc = Some ul \<and> nc_destination nc = Some dest \<and> d_coords dest = Some rawEndCoords
           \<and> nr_fullPath nr = [ul_coords ul] @ r_path nr @ [rawEndCoords]"
  using assms
  by (auto simp: computeRoute_def decorateRoute_def Let_def route.defs navRoute.defs
           split: if_splits option.splits sum.splits prod.splits)

lemma demo_inside:
  "isInsideWalkableArea demoTurf demoController roomSW = Some True"
  "isInsideWalkableArea demoTurf demoController roomSE = Some True"
  by (simp_all add: isInsideWalkableArea_def demoController_def demoTurf_def roomSW_def roomSE_def)

lemma demo_controller:
  "nc_initialized demoController"
  "nc_engine demoController = demoEngine"
  "nc_userLocation demoController = Some \<lparr>ul_coords = roomSW, ul_floorId = ''F0'', ul_snappedCoords = None\<rparr>"
  "nc_destination demoController = Some \<lparr>d_coords = Some roomSE, d_floorId = ''F0''\<rparr>"
  by (simp_all add: demoController_def)

text \<open>In the small building, for the query around the furniture: the path is the path of
  the three nodes, the full path has the two endpoints around it.\<close>

lemma around_furniture_route:
  "\<exists>nc' nr. computeRoute demoTurf demoController noSnapOptions = Some (Inr (nc', Some nr))
      \<and> nc_currentRoute nc' = Some nr
      \<and> r_path nr = r_path aroundFurnitureRoute
      \<and> nr_fullPath nr = [roomSW] @ r_path aroundFurnitureRoute @ [roomSE]
      \<and> nr_anchorStartCoords nr = roomSW \<and> nr_anchorEndCoords nr = roomSE"
  by (simp add: computeRoute_def demo_controller demo_inside around_furniture_query decorateRoute_def
        Let_def route.defs navRoute.defs)

end
